theory Spec2Isabelle
  imports Main
begin

section \<open>Python values and exceptions\<close>

text \<open>
  The exceptions raised in the three source files, by kind. \<open>ConfigurationError\<close> and
  \<open>InternalError\<close> are the two fatal signals of the traversal engine that lives behind
  \<open>_ffi_api\<close>.
\<close>

datatype py_error =
    NotImplementedError
  | ValueError
  | TypeError
  | AttributeError
  | ConfigurationError
  | InternalError

text \<open>A \<open>tir.PrimExpr\<close> is opaque to the three files: it is only passed through.\<close>

type_synonym PrimExpr = int

text \<open>
  The Python objects that reach \<open>Tensor\<close>, \<open>match_cast\<close> and \<open>call_packed\<close>. The
  classes \<open>StructInfoProxy\<close> ... \<open>PrimProxy\<close> are those of
  \<open>script/parser/relax/entry.py\<close>; the \<open>StructInfo\<close> classes are the imported
  constructors of \<open>tvm.relax\<close>, which hold their arguments as given. A callable is
  represented by what calling it with no argument does.
\<close>

datatype pyobj =
    PyNone
  | PyInt int
  | PyStr string
  | PyPrimExpr PrimExpr
  | PyList "pyobj list"
  | PyTuple "pyobj list"
  | PyDict "(pyobj \<times> pyobj) list"
  | PyStructInfo StructInfo
  | PyProxy StructInfoProxy
  | PyCallable "py_error + pyobj"
and StructInfo =
    TensorStructInfo pyobj pyobj int
  | FuncStructInfo "StructInfo list" StructInfo
  | TupleStructInfo "StructInfo list"
  | ShapeStructInfo pyobj int
  | ObjectStructInfo
  | PrimStructInfo pyobj
and StructInfoProxy =
    StructInfoProxy
  | TensorProxy (shape: pyobj) (dtype: pyobj) (ndim: int)
  | CallableProxy "StructInfoProxy list" StructInfoProxy
  | TupleProxy "StructInfoProxy list"
  | ShapeProxy pyobj int
  | ObjectProxy
  | PrimProxy pyobj

text \<open>\<open>len(x)\<close>: defined on the sized built-ins, \<open>TypeError\<close> on everything else.\<close>

fun py_len :: "pyobj \<Rightarrow> py_error + nat" where
  "py_len (PyStr s) = Inr (length s)"
| "py_len (PyList xs) = Inr (length xs)"
| "py_len (PyTuple xs) = Inr (length xs)"
| "py_len (PyDict kvs) = Inr (length kvs)"
| "py_len _ = Inl TypeError"

text \<open>\<open>isinstance(x, str)\<close> and \<open>isinstance(x, (tuple, list))\<close>.\<close>

fun isinstance_str :: "pyobj \<Rightarrow> bool" where
  "isinstance_str (PyStr _) = True"
| "isinstance_str _ = False"

fun isinstance_tuple_list :: "pyobj \<Rightarrow> bool" where
  "isinstance_tuple_list (PyList _) = True"
| "isinstance_tuple_list (PyTuple _) = True"
| "isinstance_tuple_list _ = False"

section \<open>\<open>script/parser/relax/entry.py\<close>\<close>

subsection \<open>\<open>Tensor\<close>\<close>

text \<open>
  \<^verbatim>\<open>
  def Tensor(shape=None, dtype=None, ndim=-1) -> TensorProxy:
      # scalar tensor case
      if shape is not None and len(shape) == 0:
          shape = []
      if isinstance(shape, str) and dtype is None:
          dtype = shape
          shape = None
      if shape is not None and not isinstance(shape, (tuple, list)):
          raise ValueError(f"shape must be a list or tuple, but got: {shape}")
      return TensorProxy(shape, dtype, ndim)
  \<close>
  The three statements are three steps; \<open>TensorProxy.__init__\<close> stores its arguments.
\<close>

definition Tensor_scalar_case :: "pyobj \<Rightarrow> py_error + pyobj" where
  "Tensor_scalar_case shape0 =
     (if shape0 \<noteq> PyNone then
        (case py_len shape0 of
           Inl e \<Rightarrow> Inl e
         | Inr n \<Rightarrow> Inr (if n = 0 then PyList [] else shape0))
      else Inr shape0)"

definition Tensor_dtype_case :: "pyobj \<Rightarrow> pyobj \<Rightarrow> pyobj \<times> pyobj" where
  "Tensor_dtype_case shape1 dtype0 =
     (if isinstance_str shape1 \<and> dtype0 = PyNone then (PyNone, shape1) else (shape1, dtype0))"

definition Tensor :: "pyobj \<Rightarrow> pyobj \<Rightarrow> int \<Rightarrow> py_error + StructInfoProxy" where
  "Tensor shape0 dtype0 ndim0 =
     (case Tensor_scalar_case shape0 of
        Inl e \<Rightarrow> Inl e
      | Inr shape1 \<Rightarrow>
          (case Tensor_dtype_case shape1 dtype0 of
             (shape2, dtype2) \<Rightarrow>
               if shape2 \<noteq> PyNone \<and> \<not> isinstance_tuple_list shape2 then Inl ValueError
               else Inr (TensorProxy shape2 dtype2 ndim0)))"

subsection \<open>\<open>match_cast\<close>\<close>

text \<open>
  \<^verbatim>\<open>
  class MatchCastPair:
      def __init__(self, value, struct_info):
          self.value = value
          self.struct_info = struct_info

  def match_cast(value, struct_info):
      if value is None:
          raise ValueError("value of match_cast cannot be None")
      if struct_info is None:
          raise ValueError("struct_info of match_cast cannot be None")
      return MatchCastPair(value, struct_info)
  \<close>
  An argument that may be \<open>None\<close> is an \<open>option\<close>.
\<close>

record ('e, 'si) MatchCastPair =
  "value" :: 'e
  struct_info :: 'si

definition match_cast :: "'e option \<Rightarrow> 'si option \<Rightarrow> py_error + ('e, 'si) MatchCastPair" where
  "match_cast v si =
     (case v of
        None \<Rightarrow> Inl ValueError
      | Some v' \<Rightarrow>
          (case si of
             None \<Rightarrow> Inl ValueError
           | Some si' \<Rightarrow> Inr \<lparr>value = v', struct_info = si'\<rparr>))"

subsection \<open>Struct-info proxies\<close>

text \<open>
  Iterating a Python object (\<open>for s in self.shape\<close>): the elements of a list or a tuple,
  the one-character strings of a string, the keys of a dict; \<open>TypeError\<close> otherwise.
\<close>

fun py_iter :: "pyobj \<Rightarrow> py_error + pyobj list" where
  "py_iter (PyList xs) = Inr xs"
| "py_iter (PyTuple xs) = Inr xs"
| "py_iter (PyStr s) = Inr (map (\<lambda>c. PyStr [c]) s)"
| "py_iter (PyDict kvs) = Inr (map fst kvs)"
| "py_iter _ = Inl TypeError"

text \<open>Truth value of an object in \<open>if self.values\<close>: \<open>None\<close>, zero and empty are false.\<close>

fun py_truthy :: "pyobj \<Rightarrow> bool" where
  "py_truthy PyNone = False"
| "py_truthy (PyInt n) = (n \<noteq> 0)"
| "py_truthy (PyStr s) = (s \<noteq> [])"
| "py_truthy (PyList xs) = (xs \<noteq> [])"
| "py_truthy (PyTuple xs) = (xs \<noteq> [])"
| "py_truthy (PyDict kvs) = (kvs \<noteq> [])"
| "py_truthy _ = True"

text \<open>A list comprehension whose element expression may raise: the first exception wins.\<close>

fun sequence_results :: "(py_error + 'a) list \<Rightarrow> py_error + 'a list" where
  "sequence_results [] = Inr []"
| "sequence_results (Inl e # rs) = Inl e"
| "sequence_results (Inr x # rs) =
     (case sequence_results rs of Inl e \<Rightarrow> Inl e | Inr xs \<Rightarrow> Inr (x # xs))"

text \<open>
  \<^verbatim>\<open>
  def _eval_shape(expr, dict_globals):
      if isinstance(expr, str):
          code = compile(expr, "<string>", "eval")
          return eval(code, dict_globals or {})
      else:
          return expr
  \<close>
  Python's \<open>eval\<close> is the interpreter itself: it is the parameter \<open>py_eval\<close>.
\<close>

type_synonym py_globals = "(string \<times> pyobj) list"

definition eval_shape ::
  "(string \<Rightarrow> py_globals \<Rightarrow> py_error + pyobj) \<Rightarrow> pyobj \<Rightarrow> py_globals option \<Rightarrow> py_error + pyobj"
where
  "eval_shape py_eval e dict_globals =
     (case e of
        PyStr s \<Rightarrow> py_eval s (case dict_globals of None \<Rightarrow> [] | Some g \<Rightarrow> g)
      | _ \<Rightarrow> Inr e)"

text \<open>
  \<open>as_struct_info\<close> of each proxy class. The base class raises \<open>NotImplementedError\<close>;
  \<open>TensorProxy\<close> refuses a string dimension when there are no globals to evaluate it in.
\<close>

fun as_struct_info ::
  "(string \<Rightarrow> py_globals \<Rightarrow> py_error + pyobj) \<Rightarrow> StructInfoProxy \<Rightarrow> py_globals option
     \<Rightarrow> py_error + StructInfo"
where
  "as_struct_info py_eval StructInfoProxy dg = Inl NotImplementedError"
| "as_struct_info py_eval (TensorProxy sh dt nd) dg =
     (if sh = PyNone then Inr (TensorStructInfo PyNone dt nd)
      else
        (case py_iter sh of
           Inl e \<Rightarrow> Inl e
         | Inr ss \<Rightarrow>
             if dg = None \<and> list_ex isinstance_str ss then Inl ValueError
             else
               (case sequence_results (map (\<lambda>s. eval_shape py_eval s dg) ss) of
                  Inl e \<Rightarrow> Inl e
                | Inr xs \<Rightarrow> Inr (TensorStructInfo (PyList xs) dt nd))))"
| "as_struct_info py_eval (CallableProxy params ret) dg =
     (case sequence_results (map (\<lambda>p. as_struct_info py_eval p dg) params) of
        Inl e \<Rightarrow> Inl e
      | Inr params' \<Rightarrow>
          (case as_struct_info py_eval ret dg of
             Inl e \<Rightarrow> Inl e
           | Inr ret' \<Rightarrow> Inr (FuncStructInfo params' ret')))"
| "as_struct_info py_eval (TupleProxy flds) dg =
     (case sequence_results (map (\<lambda>p. as_struct_info py_eval p dg) flds) of
        Inl e \<Rightarrow> Inl e
      | Inr flds' \<Rightarrow> Inr (TupleStructInfo flds'))"
| "as_struct_info py_eval (ShapeProxy vals nd) dg =
     (if py_truthy vals then
        (case py_iter vals of
           Inl e \<Rightarrow> Inl e
         | Inr vs \<Rightarrow>
             (case sequence_results (map (\<lambda>v. eval_shape py_eval v dg) vs) of
                Inl e \<Rightarrow> Inl e
              | Inr xs \<Rightarrow> Inr (ShapeStructInfo (PyList xs) nd)))
      else Inr (ShapeStructInfo PyNone nd))"
| "as_struct_info py_eval ObjectProxy dg = Inr ObjectStructInfo"
| "as_struct_info py_eval (PrimProxy dt) dg = Inr (PrimStructInfo dt)"

text \<open>\<open>StructInfoProxy.asobject\<close>: \<open>return self.as_struct_info(None)\<close>.\<close>

definition asobject ::
  "(string \<Rightarrow> py_globals \<Rightarrow> py_error + pyobj) \<Rightarrow> StructInfoProxy \<Rightarrow> py_error + StructInfo"
where
  "asobject py_eval p = as_struct_info py_eval p None"

section \<open>The expression tree\<close>

text \<open>
  The node classes that \<open>relax/expr_functor.py\<close> imports from \<open>.expr\<close>, one constructor
  each. A variable is identified by its \<open>vid\<close>; a \<open>Var\<close> object is itself an expression,
  and \<open>EVar\<close> is that inclusion. Shapes and types are opaque annotations.
\<close>

type_synonym Id = nat
type_synonym Shape = "int list"
type_synonym Type = string

datatype var =
    Var (vid: Id) (name_hint: string) (var_shape: "Shape option") (var_type: "Type option")
  | DataflowVar (vid: Id) (name_hint: string) (var_shape: "Shape option") (var_type: "Type option")

datatype Attrs = Attrs pyobj py_globals

datatype expr =
    Constant int
  | Tuple "expr list"
  | EVar var
  | ShapeExpr "PrimExpr list"
  | RuntimeDepShape
  | ExternFunc string
  | GlobalVar string
  | Function "var list" expr "Type option" "Attrs option"
  | Call expr "expr list" "Attrs option" "pyobj list"
  | SeqExpr "block list" expr
  | If expr expr expr
  | Op string
  | TupleGetItem expr nat
and binding =
    VarBinding var expr
  | MatchShape expr "PrimExpr list" var
and block =
    BindingBlock "binding list"
  | DataflowBlock "binding list"

section \<open>\<open>script/ir_builder/relax/ir.py\<close>: \<open>call_packed\<close>\<close>

text \<open>
  \<^verbatim>\<open>
  op = ExternFunc(func)
  if sinfo_args is None:
      raise ValueError("R.call_packed is required to have type_args")
  if isinstance(sinfo_args, py_tuple):
      sinfo_args = list(sinfo_args)
  elif not isinstance(sinfo_args, list):
      sinfo_args = [sinfo_args]
  for i, sinfo_arg in enumerate(sinfo_args):
      if callable(sinfo_arg):
          sinfo_arg = sinfo_arg()
      # Convert possible StructInfoProxy to StructInfo
      if isinstance(sinfo_arg, ObjectGeneric):
          sinfo_arg = sinfo_arg.asobject()
      sinfo_args[i] = sinfo_arg
  \<close>
\<close>

fun sinfo_args_as_list :: "pyobj \<Rightarrow> pyobj list" where
  "sinfo_args_as_list (PyTuple xs) = xs"
| "sinfo_args_as_list (PyList xs) = xs"
| "sinfo_args_as_list x = [x]"

fun py_callable :: "pyobj \<Rightarrow> bool" where
  "py_callable (PyCallable _) = True"
| "py_callable _ = False"

fun py_call :: "pyobj \<Rightarrow> py_error + pyobj" where
  "py_call (PyCallable r) = r"
| "py_call _ = Inl TypeError"

text \<open>The body of the loop, for one element.\<close>

definition convert_sinfo_arg ::
  "(string \<Rightarrow> py_globals \<Rightarrow> py_error + pyobj) \<Rightarrow> pyobj \<Rightarrow> py_error + pyobj"
where
  "convert_sinfo_arg py_eval a =
     (case (if py_callable a then py_call a else Inr a) of
        Inl e \<Rightarrow> Inl e
      | Inr b \<Rightarrow>
          (case b of
             PyProxy p \<Rightarrow>
               (case asobject py_eval p of Inl e \<Rightarrow> Inl e | Inr si \<Rightarrow> Inr (PyStructInfo si))
           | _ \<Rightarrow> Inr b))"

text \<open>The loop: elements in order, stopping at the first exception.\<close>

fun convert_sinfo_args ::
  "(string \<Rightarrow> py_globals \<Rightarrow> py_error + pyobj) \<Rightarrow> pyobj list \<Rightarrow> py_error + pyobj list"
where
  "convert_sinfo_args py_eval [] = Inr []"
| "convert_sinfo_args py_eval (a # as) =
     (case convert_sinfo_arg py_eval a of
        Inl e \<Rightarrow> Inl e
      | Inr b \<Rightarrow>
          (case convert_sinfo_args py_eval as of Inl e \<Rightarrow> Inl e | Inr bs \<Rightarrow> Inr (b # bs)))"

text \<open>
  \<^verbatim>\<open>
  is_default = False
  if "attrs_type_key" in kwargs:
      attrs_type_key = kwargs["attrs_type_key"]
      kwargs.pop("attrs_type_key")
  else:
      attrs_type_key = "DictAttrs"
      is_default = True
  attrs = None
  if kwargs or not is_default:
      attrs = tvm.ir.attrs.make_node(attrs_type_key, **kwargs)
  \<close>
  \<open>kwargs\<close> is a dict with string keys, here an association list with distinct keys;
  \<open>tvm.ir.attrs.make_node\<close> is the parameter \<open>make_node\<close>.
\<close>

definition call_packed_attrs ::
  "(pyobj \<Rightarrow> py_globals \<Rightarrow> py_error + Attrs) \<Rightarrow> py_globals \<Rightarrow> py_error + Attrs option"
where
  "call_packed_attrs make_node kwargs =
     (case map_of kwargs ''attrs_type_key'' of
        Some k \<Rightarrow>
          (case make_node k (filter (\<lambda>kv. fst kv \<noteq> ''attrs_type_key'') kwargs) of
             Inl e \<Rightarrow> Inl e
           | Inr a \<Rightarrow> Inr (Some a))
      | None \<Rightarrow>
          if kwargs \<noteq> [] then
            (case make_node (PyStr ''DictAttrs'') kwargs of
               Inl e \<Rightarrow> Inl e
             | Inr a \<Rightarrow> Inr (Some a))
          else Inr None)"

text \<open>
  \<open>call_packed\<close> itself; \<open>args\<close> are the positional arguments as the
  \<open>args_converter.auto\<close> decorator hands them over, already expressions.
  The last line is \<open>return Call(op, args, attrs=attrs, sinfo_args=sinfo_args)\<close>.
\<close>

definition call_packed ::
  "(string \<Rightarrow> py_globals \<Rightarrow> py_error + pyobj) \<Rightarrow> (pyobj \<Rightarrow> py_globals \<Rightarrow> py_error + Attrs)
     \<Rightarrow> string \<Rightarrow> expr list \<Rightarrow> pyobj \<Rightarrow> py_globals \<Rightarrow> py_error + expr"
where
  "call_packed py_eval make_node func args sinfo_args kwargs =
     (if sinfo_args = PyNone then Inl ValueError
      else
        (case convert_sinfo_args py_eval (sinfo_args_as_list sinfo_args) of
           Inl e \<Rightarrow> Inl e
         | Inr sinfos \<Rightarrow>
             (case call_packed_attrs make_node kwargs of
                Inl e \<Rightarrow> Inl e
              | Inr attrs \<Rightarrow> Inr (Call (ExternFunc func) args attrs sinfos))))"

section \<open>\<open>relax/expr_functor.py\<close>: the user-facing classes\<close>

text \<open>
  The node classes a handler is dispatched on, named as the docstrings name them
  (\<open>VisitExpr_(const ConstantNode* op)\<close>, \<open>VisitBinding_(const VarBindingNode* binding)\<close>,
  \<open>VisitBindingBlock_(const DataflowBlockNode* block)\<close>, \<open>VisitVarDef_(const VarNode* var)\<close>).
\<close>

datatype expr_kind =
    ConstantNode | TupleNode | VarNode | DataflowVarNode | ShapeExprNode | RuntimeDepShapeNode
  | ExternFuncNode | GlobalVarNode | FunctionNode | CallNode | SeqExprNode | IfNode | OpNode
  | TupleGetItemNode

datatype binding_kind = VarBindingNode | MatchShapeNode

datatype block_kind = BindingBlockNode | DataflowBlockNode

datatype var_kind = VarDefNode | DataflowVarDefNode

text \<open>
  The overridable methods: \<open>visit_expr_of K\<close> is \<open>visit_<K>_\<close>, \<open>rewrite_post_order K\<close> is
  \<open>rewrite_<K>_post_order\<close>, and so on; \<open>method_name\<close> gives the Python attribute name.
\<close>

datatype py_method =
    visit_expr
  | visit_expr_of expr_kind
  | visit_binding
  | visit_binding_of binding_kind
  | visit_binding_block
  | visit_binding_block_of block_kind
  | visit_var_def
  | visit_var_def_of var_kind
  | visit_type
  | visit_span
  | rewrite_post_order expr_kind

fun kind_name :: "expr_kind \<Rightarrow> string" where
  "kind_name ConstantNode = ''constant''"
| "kind_name TupleNode = ''tuple''"
| "kind_name VarNode = ''var''"
| "kind_name DataflowVarNode = ''dataflow_var''"
| "kind_name ShapeExprNode = ''shape_expr''"
| "kind_name RuntimeDepShapeNode = ''runtime_dep_shape''"
| "kind_name ExternFuncNode = ''extern_func''"
| "kind_name GlobalVarNode = ''global_var''"
| "kind_name FunctionNode = ''function''"
| "kind_name CallNode = ''call''"
| "kind_name SeqExprNode = ''seq_expr''"
| "kind_name IfNode = ''if''"
| "kind_name OpNode = ''op''"
| "kind_name TupleGetItemNode = ''tuple_getitem''"

fun method_name :: "py_method \<Rightarrow> string" where
  "method_name visit_expr = ''visit_expr''"
| "method_name (visit_expr_of K) = ''visit_'' @ kind_name K @ ''_''"
| "method_name visit_binding = ''visit_binding''"
| "method_name (visit_binding_of VarBindingNode) = ''visit_var_binding_''"
| "method_name (visit_binding_of MatchShapeNode) = ''visit_match_shape_''"
| "method_name visit_binding_block = ''visit_binding_block''"
| "method_name (visit_binding_block_of BindingBlockNode) = ''visit_binding_block_''"
| "method_name (visit_binding_block_of DataflowBlockNode) = ''visit_dataflow_block_''"
| "method_name visit_var_def = ''visit_var_def''"
| "method_name (visit_var_def_of VarDefNode) = ''visit_var_def_''"
| "method_name (visit_var_def_of DataflowVarDefNode) = ''visit_dataflow_var_def_''"
| "method_name visit_type = ''visit_type''"
| "method_name visit_span = ''visit_span''"
| "method_name (rewrite_post_order K) = ''rewrite_'' @ kind_name K @ ''_post_order''"

definition all_expr_kinds :: "expr_kind list" where
  "all_expr_kinds =
     [ConstantNode, TupleNode, VarNode, DataflowVarNode, ShapeExprNode, RuntimeDepShapeNode,
      ExternFuncNode, GlobalVarNode, FunctionNode, CallNode, SeqExprNode, IfNode, OpNode,
      TupleGetItemNode]"

text \<open>\<open>PyExprVisitor._tvm_metadata["methods"]\<close>, in the order of the source.\<close>

definition PyExprVisitor_methods :: "py_method list" where
  "PyExprVisitor_methods =
     visit_expr # map visit_expr_of all_expr_kinds @
     [visit_binding, visit_binding_of VarBindingNode, visit_binding_of MatchShapeNode,
      visit_binding_block, visit_binding_block_of BindingBlockNode,
      visit_binding_block_of DataflowBlockNode,
      visit_var_def, visit_var_def_of VarDefNode, visit_var_def_of DataflowVarDefNode,
      visit_type, visit_span]"

text \<open>\<open>PyExprMutator._tvm_metadata["methods"]\<close>: the same, then the post-order hooks.\<close>

definition PyExprMutator_methods :: "py_method list" where
  "PyExprMutator_methods = PyExprVisitor_methods @ map rewrite_post_order all_expr_kinds"

text \<open>
  The four functions of \<open>_ffi_api\<close> that the generic dispatchers of each class call. They
  are compiled code outside the three files, hence parameters; \<open>'a\<close> is what a method
  receives and \<open>'r\<close> what it returns.
\<close>

record ('a, 'r) visitor_ffi_api =
  PyExprVisitorVisitExpr :: "'a \<Rightarrow> py_error + 'r"
  PyExprVisitorVisitBinding :: "'a \<Rightarrow> py_error + 'r"
  PyExprVisitorVisitBindingBlock :: "'a \<Rightarrow> py_error + 'r"
  PyExprVisitorVisitVarDef :: "'a \<Rightarrow> py_error + 'r"

record ('a, 'r) mutator_ffi_api =
  PyExprMutatorVisitExpr :: "'a \<Rightarrow> py_error + 'r"
  PyExprMutatorVisitBinding :: "'a \<Rightarrow> py_error + 'r"
  PyExprMutatorVisitBindingBlock :: "'a \<Rightarrow> py_error + 'r"
  PyExprMutatorVisitVarDef :: "'a \<Rightarrow> py_error + 'r"

text \<open>
  The bodies of the methods of class \<open>PyExprVisitor\<close>: the four generic dispatchers
  \<open>return _ffi_api.PyExprVisitorVisit...(self._outer(), x)\<close>, every other method is
  \<open>raise NotImplementedError\<close>. The class has no \<open>rewrite_..._post_order\<close> attribute.
\<close>

fun PyExprVisitor :: "('a, 'r) visitor_ffi_api \<Rightarrow> py_method \<Rightarrow> ('a \<Rightarrow> py_error + 'r) option" where
  "PyExprVisitor ffi visit_expr = Some (PyExprVisitorVisitExpr ffi)"
| "PyExprVisitor ffi visit_binding = Some (PyExprVisitorVisitBinding ffi)"
| "PyExprVisitor ffi visit_binding_block = Some (PyExprVisitorVisitBindingBlock ffi)"
| "PyExprVisitor ffi visit_var_def = Some (PyExprVisitorVisitVarDef ffi)"
| "PyExprVisitor ffi (visit_expr_of K) = Some (\<lambda>op. Inl NotImplementedError)"
| "PyExprVisitor ffi (visit_binding_of K) = Some (\<lambda>binding. Inl NotImplementedError)"
| "PyExprVisitor ffi (visit_binding_block_of K) = Some (\<lambda>block. Inl NotImplementedError)"
| "PyExprVisitor ffi (visit_var_def_of K) = Some (\<lambda>var. Inl NotImplementedError)"
| "PyExprVisitor ffi visit_type = Some (\<lambda>t. Inl NotImplementedError)"
| "PyExprVisitor ffi visit_span = Some (\<lambda>span. Inl NotImplementedError)"
| "PyExprVisitor ffi (rewrite_post_order K) = None"

text \<open>
  The bodies of the methods of class \<open>PyExprMutator\<close>: as above, and each
  \<open>rewrite_<K>_post_order\<close> is \<open>raise NotImplementedError\<close> too.
\<close>

fun PyExprMutator :: "('a, 'r) mutator_ffi_api \<Rightarrow> py_method \<Rightarrow> ('a \<Rightarrow> py_error + 'r) option" where
  "PyExprMutator ffi visit_expr = Some (PyExprMutatorVisitExpr ffi)"
| "PyExprMutator ffi visit_binding = Some (PyExprMutatorVisitBinding ffi)"
| "PyExprMutator ffi visit_binding_block = Some (PyExprMutatorVisitBindingBlock ffi)"
| "PyExprMutator ffi visit_var_def = Some (PyExprMutatorVisitVarDef ffi)"
| "PyExprMutator ffi (visit_expr_of K) = Some (\<lambda>op. Inl NotImplementedError)"
| "PyExprMutator ffi (visit_binding_of K) = Some (\<lambda>binding. Inl NotImplementedError)"
| "PyExprMutator ffi (visit_binding_block_of K) = Some (\<lambda>block. Inl NotImplementedError)"
| "PyExprMutator ffi (visit_var_def_of K) = Some (\<lambda>var. Inl NotImplementedError)"
| "PyExprMutator ffi visit_type = Some (\<lambda>t. Inl NotImplementedError)"
| "PyExprMutator ffi visit_span = Some (\<lambda>span. Inl NotImplementedError)"
| "PyExprMutator ffi (rewrite_post_order K) = Some (\<lambda>op. Inl NotImplementedError)"

text \<open>
  A user class inherits from one of the two and overrides some methods: \<open>overrides m\<close> is
  the body the subclass gives to \<open>m\<close>, if any. Calling \<open>obj.m(x)\<close> runs the subclass's
  body when there is one and the inherited body otherwise.
\<close>

definition invoke ::
  "(py_method \<Rightarrow> ('a \<Rightarrow> py_error + 'r) option) \<Rightarrow> (py_method \<Rightarrow> ('a \<Rightarrow> py_error + 'r) option)
     \<Rightarrow> py_method \<Rightarrow> 'a \<Rightarrow> py_error + 'r"
where
  "invoke base overrides m x =
     (case overrides m of
        Some f \<Rightarrow> f x
      | None \<Rightarrow> (case base m of Some f \<Rightarrow> f x | None \<Rightarrow> Inl AttributeError))"

definition generic_dispatchers :: "py_method list" where
  "generic_dispatchers = [visit_expr, visit_binding, visit_binding_block, visit_var_def]"

section \<open>The mutator engine\<close>

text \<open>
  The traversal itself is compiled code reached through \<open>_ffi_api\<close>
  (\<open>MakePyExprMutator\<close>, \<open>PyExprMutatorVisitExpr\<close>, \<open>PyExprMutatorSetVarRemap\<close>, ...): the
  three files hold only its Python face. The definitions of this section follow the
  specification's description of the engine (sections 4.3, 4.4 and 6).
\<close>

subsection \<open>State and configuration\<close>

text \<open>
  Modelled from the spec: the fields of the engine's object are not in the source files.
  One mutator instance owns, for the duration of a traversal, the "mapping from the
  original variable's identity to its replacement variable", the right-hand side "most
  recently bound" to each variable, and the builder's binding blocks under construction
  (innermost first).
\<close>

record mutator_state =
  var_remap :: "Id \<rightharpoonup> var"
  binding_table :: "Id \<rightharpoonup> expr"
  block_stack :: "binding list list"

text \<open>
  Modelled from the spec: the state of a newly constructed instance. Nothing is remapped,
  nothing is bound and no block is open.
\<close>

definition initial_state :: mutator_state where
  "initial_state = \<lparr>var_remap = Map.empty, binding_table = Map.empty, block_stack = []\<rparr>"

text \<open>
  A handler supplied from Python is a callable that may read and change the mutator
  (through \<open>set_var_remap\<close>, the builder, or the dispatchers) and may raise: it is the
  function from its argument and the state before to the exception, or to its result and
  the state after. A binding handler returns \<open>None\<close>, so only the state.
\<close>

type_synonym 'a handler = "'a \<Rightarrow> mutator_state \<Rightarrow> py_error + 'a \<times> mutator_state"
type_synonym binding_handler = "binding \<Rightarrow> mutator_state \<Rightarrow> py_error + mutator_state"

text \<open>
  The arguments of \<open>_PyExprMutator.__init__\<close>, each \<open>None\<close> by default:
  \<open>f_visit_expr_of K\<close> is \<open>f_visit_<K>_\<close> and \<open>f_rewrite_post_order K\<close> is
  \<open>f_rewrite_<K>_post_order\<close>. Of the builder only the struct-info inference that the
  engine asks of it is kept (\<open>infer\<close>: the shape and type of an expression). The
  specification gives the mutator no contract on \<open>f_visit_type\<close> and \<open>f_visit_span\<close>; they
  are left out.
\<close>

record mutator_config =
  infer :: "expr \<Rightarrow> Shape option \<times> Type"
  f_visit_expr :: "expr handler option"
  f_visit_expr_of :: "expr_kind \<Rightarrow> expr handler option"
  f_visit_binding :: "binding_handler option"
  f_visit_binding_of :: "binding_kind \<Rightarrow> binding_handler option"
  f_visit_binding_block :: "block handler option"
  f_visit_binding_block_of :: "block_kind \<Rightarrow> block handler option"
  f_visit_var_def :: "var handler option"
  f_visit_var_def_of :: "var_kind \<Rightarrow> var handler option"
  f_rewrite_post_order :: "expr_kind \<Rightarrow> expr handler option"

text \<open>The runtime kind a node is dispatched on.\<close>

fun kind_of :: "expr \<Rightarrow> expr_kind" where
  "kind_of (Constant c) = ConstantNode"
| "kind_of (Tuple es) = TupleNode"
| "kind_of (EVar (Var i n sh ty)) = VarNode"
| "kind_of (EVar (DataflowVar i n sh ty)) = DataflowVarNode"
| "kind_of (ShapeExpr vs) = ShapeExprNode"
| "kind_of RuntimeDepShape = RuntimeDepShapeNode"
| "kind_of (ExternFunc n) = ExternFuncNode"
| "kind_of (GlobalVar n) = GlobalVarNode"
| "kind_of (Function ps b r a) = FunctionNode"
| "kind_of (Call f as a si) = CallNode"
| "kind_of (SeqExpr bs b) = SeqExprNode"
| "kind_of (If c t e) = IfNode"
| "kind_of (Op n) = OpNode"
| "kind_of (TupleGetItem t i) = TupleGetItemNode"

fun binding_kind_of :: "binding \<Rightarrow> binding_kind" where
  "binding_kind_of (VarBinding v e) = VarBindingNode"
| "binding_kind_of (MatchShape e p v) = MatchShapeNode"

fun block_kind_of :: "block \<Rightarrow> block_kind" where
  "block_kind_of (BindingBlock bs) = BindingBlockNode"
| "block_kind_of (DataflowBlock bs) = DataflowBlockNode"

fun var_kind_of :: "var \<Rightarrow> var_kind" where
  "var_kind_of (Var i n sh ty) = VarDefNode"
| "var_kind_of (DataflowVar i n sh ty) = DataflowVarDefNode"

fun binding_var :: "binding \<Rightarrow> var" where
  "binding_var (VarBinding v e) = v"
| "binding_var (MatchShape e p v) = v"

fun binding_value :: "binding \<Rightarrow> expr" where
  "binding_value (VarBinding v e) = e"
| "binding_value (MatchShape e p v) = e"

subsection \<open>Construction\<close>

text \<open>
  Modelled from the spec: \<open>MakePyExprMutator\<close>, the constructor that
  \<open>_PyExprMutator.__init__\<close> calls through \<open>_ffi_api\<close>, is not in the source files.
  "A node kind must not have both a direct override and a post-order hook supplied
  simultaneously -- doing so is a configuration error detected at setup time"; "fatal at
  construction, before any traversal begins".
\<close>

definition both_supplied :: "mutator_config \<Rightarrow> expr_kind \<Rightarrow> bool" where
  "both_supplied c K = (f_visit_expr_of c K \<noteq> None \<and> f_rewrite_post_order c K \<noteq> None)"

text \<open>
  Modelled from the spec: \<open>MakePyExprMutator\<close> itself. "Construction must reject
  (mutually exclusive per kind) supplying both a direct override and a post-order hook for
  the same kind"; otherwise it is "a pure composition step" that yields the instance with
  the slots given, in its initial state.
\<close>

definition MakePyExprMutator :: "mutator_config \<Rightarrow> py_error + mutator_config \<times> mutator_state" where
  "MakePyExprMutator c =
     (if list_ex (both_supplied c) all_expr_kinds then Inl ConfigurationError
      else Inr (c, initial_state))"

subsection \<open>Variable remapping, bindings, struct info\<close>

text \<open>
  Modelled from the spec: \<open>PyExprMutatorSetVarRemap\<close>, which the method \<open>set_var_remap\<close>
  calls, is not in the source files. The mutator "maintains a mapping from the original
  variable's identity to its replacement variable, populated by \<open>set_var_remap\<close> and
  queried by \<open>get_var_remap\<close>".
\<close>

definition set_var_remap :: "Id \<Rightarrow> var \<Rightarrow> mutator_state \<Rightarrow> mutator_state" where
  "set_var_remap i v s = s\<lparr>var_remap := (var_remap s)(i \<mapsto> v)\<rparr>"


text \<open>
  Modelled from the spec: \<open>PyExprMutatorLookupBinding\<close>, which the method
  \<open>lookup_binding\<close> calls, is not in the source files. It "returns the right-hand-side
  expression most recently bound to \<open>var\<close> in the current traversal state, or absent".
\<close>

definition lookup_binding :: "var \<Rightarrow> mutator_state \<Rightarrow> expr option" where
  "lookup_binding v s = binding_table s (vid v)"

text \<open>
  Modelled from the spec: the builder's emission is not in the source files. The mutator
  "emits ... replacement bindings into the binding block currently under construction";
  the emitted binding becomes the one most recently bound to its variable. Without an open
  block there is nothing to emit into.
\<close>

definition emit :: "binding \<Rightarrow> mutator_state \<Rightarrow> py_error + mutator_state" where
  "emit b s =
     (case block_stack s of
        [] \<Rightarrow> Inl InternalError
      | cur # rest \<Rightarrow>
          Inr (s\<lparr>block_stack := (cur @ [b]) # rest,
                 binding_table := (binding_table s)(vid (binding_var b) \<mapsto> binding_value b)\<rparr>))"

text \<open>
  Modelled from the spec: opening a builder scope is not in the source files. "A new
  block is produced by opening a fresh builder scope, replaying the traversal into it, and
  closing the scope to obtain the finished BindingBlock."
\<close>

definition begin_block :: "mutator_state \<Rightarrow> mutator_state" where
  "begin_block s = s\<lparr>block_stack := [] # block_stack s\<rparr>"

text \<open>
  Modelled from the spec: closing the builder scope is not in the source files. It
  returns the bindings emitted into the innermost block and leaves the enclosing blocks
  open; there must be an open block.
\<close>

definition end_block :: "mutator_state \<Rightarrow> py_error + binding list \<times> mutator_state" where
  "end_block s =
     (case block_stack s of
        [] \<Rightarrow> Inl InternalError
      | cur # rest \<Rightarrow> Inr (cur, s\<lparr>block_stack := rest\<rparr>))"

text \<open>
  Modelled from the spec: the variable "with corrected struct-info" that the engine
  synthesizes is built by code that is not in the source files. It is a variable of the
  same kind, identity and name, with the shape and type specified.
\<close>

fun set_shape_and_type :: "var \<Rightarrow> Shape option \<Rightarrow> Type \<Rightarrow> var" where
  "set_shape_and_type (Var i n sh ty) sh' t = Var i n sh' (Some t)"
| "set_shape_and_type (DataflowVar i n sh ty) sh' t = DataflowVar i n sh' (Some t)"

text \<open>
  Modelled from the spec: \<open>PyExprMutatorWithShapeAndType\<close>, which the method
  \<open>with_shape_and_type\<close> calls, is not in the source files. Its docstring: "Create a new
  var with specified shape and type if the original var's shape or type does not match
  with the specified ones."
\<close>

definition with_shape_and_type :: "var \<Rightarrow> Shape option \<Rightarrow> Type \<Rightarrow> var" where
  "with_shape_and_type v sh t =
     (if var_shape v = sh \<and> var_type v = Some t then v else set_shape_and_type v sh t)"

text \<open>
  Modelled from the spec: the same operation on variable objects, where a variable is an
  object in a store and is referred to by its address, so that creating a variable and
  changing one in place differ. The engine "synthesizes a fresh variable with corrected
  struct-info rather than mutating the existing variable in place". Allocation appends to
  the store; the operation fails on an address that holds no object.
\<close>

type_synonym var_store = "var list"

definition with_shape_and_type_obj ::
  "var_store \<Rightarrow> nat \<Rightarrow> Shape option \<Rightarrow> Type \<Rightarrow> py_error + nat \<times> var_store"
where
  "with_shape_and_type_obj h a sh t =
     (if a < length h then
        (if var_shape (h ! a) = sh \<and> var_type (h ! a) = Some t then Inr (a, h)
         else Inr (length h, h @ [set_shape_and_type (h ! a) sh t]))
      else Inl InternalError)"

subsection \<open>Traversal\<close>

text \<open>
  Modelled from the spec: \<open>PyExprMutatorVisitVarDef\<close> is not in the source files. The
  generic entry point dispatches on the kind of variable; a slot that is not supplied
  "falls back to the engine default", which keeps the variable.
\<close>

definition mutator_visit_var_def :: "mutator_config \<Rightarrow> var handler" where
  "mutator_visit_var_def c v s =
     (case f_visit_var_def c of
        Some f \<Rightarrow> f v s
      | None \<Rightarrow>
          (case f_visit_var_def_of c (var_kind_of v) of
             Some f \<Rightarrow> f v s
           | None \<Rightarrow> Inr (v, s)))"

text \<open>
  Modelled from the spec: the visit of the parameters of a function, in order, is not in
  the source files. Parameters are definition sites and go through \<open>visit_var_def\<close>.
\<close>

fun mutator_visit_var_defs ::
  "mutator_config \<Rightarrow> var list \<Rightarrow> mutator_state \<Rightarrow> py_error + var list \<times> mutator_state"
where
  "mutator_visit_var_defs c [] s = Inr ([], s)"
| "mutator_visit_var_defs c (v # vs) s =
     (case mutator_visit_var_def c v s of
        Inl x \<Rightarrow> Inl x
      | Inr (v', s1) \<Rightarrow>
          (case mutator_visit_var_defs c vs s1 of
             Inl x \<Rightarrow> Inl x
           | Inr (vs', s2) \<Rightarrow> Inr (v' # vs', s2)))"

text \<open>
  Modelled from the spec: the registration of a replaced left-hand variable is not in the
  source files. Where "a fresh or adjusted variable for a binding's left-hand side is
  produced", there "the remap entry" is "registered": under the original identity, so that later
  uses are substituted. The rewritten value is known only when the binding is visited, so
  this is done there.
\<close>

definition register_remap :: "var \<Rightarrow> var \<Rightarrow> mutator_state \<Rightarrow> mutator_state" where
  "register_remap v v' s = (if v' = v then s else set_var_remap (vid v) v' s)"

text \<open>
  Modelled from the spec: \<open>PyExprMutatorVisitExpr\<close>, \<open>PyExprMutatorVisitBinding\<close>,
  \<open>PyExprMutatorVisitBindingBlock\<close> and \<open>PyExprMutatorVisitWithNewScope\<close> are not in the
  source files. For an expression: the override of \<open>visit_expr\<close> if supplied; otherwise the
  direct override of the node's kind if supplied ("caller fully controls recursion and
  reconstruction; receives the original node, returns its replacement"); otherwise the
  engine "recurses into children itself, builds the reconstructed node from the recursed
  children" (\<open>visit_expr_post_order\<close>, the \<open>VisitExprPostOrder_\<close> of the docstrings) "and
  then calls the user hook on that reconstructed node", an omitted hook being no rewrite.
  A use of a variable "consults this map: if the identity is remapped, the replacement is
  substituted; otherwise the original is passed through unchanged". A function body and
  the branches of an \<open>If\<close> are visited in a new scope, whose remaps end with it. A binding
  is not returned but emitted; a \<open>VarBinding\<close> whose rewritten value carries another
  struct info than its variable gets a variable with the corrected one.
\<close>

function
  mutator_visit_expr :: "mutator_config \<Rightarrow> expr handler" and
  visit_expr_post_order :: "mutator_config \<Rightarrow> expr handler" and
  mutator_visit_exprs ::
    "mutator_config \<Rightarrow> expr list \<Rightarrow> mutator_state \<Rightarrow> py_error + expr list \<times> mutator_state" and
  visit_with_new_scope :: "mutator_config \<Rightarrow> expr handler" and
  mutator_visit_binding :: "mutator_config \<Rightarrow> binding_handler" and
  mutator_visit_bindings ::
    "mutator_config \<Rightarrow> binding list \<Rightarrow> mutator_state \<Rightarrow> py_error + mutator_state" and
  mutator_visit_binding_block :: "mutator_config \<Rightarrow> block handler" and
  mutator_visit_binding_blocks ::
    "mutator_config \<Rightarrow> block list \<Rightarrow> mutator_state \<Rightarrow> py_error + block list \<times> mutator_state"
where
  "mutator_visit_expr c e s =
     (case f_visit_expr c of
        Some f \<Rightarrow> f e s
      | None \<Rightarrow>
          (case f_visit_expr_of c (kind_of e) of
             Some f \<Rightarrow> f e s
           | None \<Rightarrow>
               (case visit_expr_post_order c e s of
                  Inl x \<Rightarrow> Inl x
                | Inr (e', s') \<Rightarrow>
                    (case f_rewrite_post_order c (kind_of e) of
                       Some h \<Rightarrow> h e' s'
                     | None \<Rightarrow> Inr (e', s')))))"
| "visit_expr_post_order c (Constant k) s = Inr (Constant k, s)"
| "visit_expr_post_order c (Tuple es) s =
     (case mutator_visit_exprs c es s of
        Inl x \<Rightarrow> Inl x
      | Inr (es', s1) \<Rightarrow> Inr (Tuple es', s1))"
| "visit_expr_post_order c (EVar v) s =
     (case var_remap s (vid v) of
        Some v' \<Rightarrow> Inr (EVar v', s)
      | None \<Rightarrow> Inr (EVar v, s))"
| "visit_expr_post_order c (ShapeExpr vs) s = Inr (ShapeExpr vs, s)"
| "visit_expr_post_order c RuntimeDepShape s = Inr (RuntimeDepShape, s)"
| "visit_expr_post_order c (ExternFunc n) s = Inr (ExternFunc n, s)"
| "visit_expr_post_order c (GlobalVar n) s = Inr (GlobalVar n, s)"
| "visit_expr_post_order c (Function ps body ret attrs) s =
     (case mutator_visit_var_defs c ps s of
        Inl x \<Rightarrow> Inl x
      | Inr (ps', s1) \<Rightarrow>
          (case visit_with_new_scope c body s1 of
             Inl x \<Rightarrow> Inl x
           | Inr (body', s2) \<Rightarrow> Inr (Function ps' body' ret attrs, s2)))"
| "visit_expr_post_order c (Call f args attrs sinfos) s =
     (case mutator_visit_expr c f s of
        Inl x \<Rightarrow> Inl x
      | Inr (f', s1) \<Rightarrow>
          (case mutator_visit_exprs c args s1 of
             Inl x \<Rightarrow> Inl x
           | Inr (args', s2) \<Rightarrow> Inr (Call f' args' attrs sinfos, s2)))"
| "visit_expr_post_order c (SeqExpr blocks body) s =
     (case mutator_visit_binding_blocks c blocks s of
        Inl x \<Rightarrow> Inl x
      | Inr (blocks', s1) \<Rightarrow>
          (case mutator_visit_expr c body s1 of
             Inl x \<Rightarrow> Inl x
           | Inr (body', s2) \<Rightarrow> Inr (SeqExpr blocks' body', s2)))"
| "visit_expr_post_order c (If cond t f) s =
     (case mutator_visit_expr c cond s of
        Inl x \<Rightarrow> Inl x
      | Inr (cond', s1) \<Rightarrow>
          (case visit_with_new_scope c t s1 of
             Inl x \<Rightarrow> Inl x
           | Inr (t', s2) \<Rightarrow>
               (case visit_with_new_scope c f s2 of
                  Inl x \<Rightarrow> Inl x
                | Inr (f', s3) \<Rightarrow> Inr (If cond' t' f', s3))))"
| "visit_expr_post_order c (Op n) s = Inr (Op n, s)"
| "visit_expr_post_order c (TupleGetItem t i) s =
     (case mutator_visit_expr c t s of
        Inl x \<Rightarrow> Inl x
      | Inr (t', s1) \<Rightarrow> Inr (TupleGetItem t' i, s1))"
| "mutator_visit_exprs c [] s = Inr ([], s)"
| "mutator_visit_exprs c (e # es) s =
     (case mutator_visit_expr c e s of
        Inl x \<Rightarrow> Inl x
      | Inr (e', s1) \<Rightarrow>
          (case mutator_visit_exprs c es s1 of
             Inl x \<Rightarrow> Inl x
           | Inr (es', s2) \<Rightarrow> Inr (e' # es', s2)))"
| "visit_with_new_scope c e s =
     (case mutator_visit_expr c e s of
        Inl x \<Rightarrow> Inl x
      | Inr (e', s') \<Rightarrow> Inr (e', s'\<lparr>var_remap := var_remap s\<rparr>))"
| "mutator_visit_binding c (VarBinding v e) s =
     (case f_visit_binding c of
        Some f \<Rightarrow> f (VarBinding v e) s
      | None \<Rightarrow>
          (case f_visit_binding_of c VarBindingNode of
             Some f \<Rightarrow> f (VarBinding v e) s
           | None \<Rightarrow>
               (case mutator_visit_expr c e s of
                  Inl x \<Rightarrow> Inl x
                | Inr (e', s1) \<Rightarrow>
                    (case mutator_visit_var_def c v s1 of
                       Inl x \<Rightarrow> Inl x
                     | Inr (v1, s2) \<Rightarrow>
                         (case with_shape_and_type v1 (fst (infer c e')) (snd (infer c e')) of
                            v2 \<Rightarrow> emit (VarBinding v2 e') (register_remap v v2 s2))))))"
| "mutator_visit_binding c (MatchShape e pat v) s =
     (case f_visit_binding c of
        Some f \<Rightarrow> f (MatchShape e pat v) s
      | None \<Rightarrow>
          (case f_visit_binding_of c MatchShapeNode of
             Some f \<Rightarrow> f (MatchShape e pat v) s
           | None \<Rightarrow>
               (case mutator_visit_expr c e s of
                  Inl x \<Rightarrow> Inl x
                | Inr (e', s1) \<Rightarrow>
                    (case mutator_visit_var_def c v s1 of
                       Inl x \<Rightarrow> Inl x
                     | Inr (v1, s2) \<Rightarrow>
                         emit (MatchShape e' pat v1) (register_remap v v1 s2)))))"
| "mutator_visit_bindings c [] s = Inr s"
| "mutator_visit_bindings c (b # bs) s =
     (case mutator_visit_binding c b s of
        Inl x \<Rightarrow> Inl x
      | Inr s1 \<Rightarrow> mutator_visit_bindings c bs s1)"
| "mutator_visit_binding_block c (BindingBlock bs) s =
     (case f_visit_binding_block c of
        Some f \<Rightarrow> f (BindingBlock bs) s
      | None \<Rightarrow>
          (case f_visit_binding_block_of c BindingBlockNode of
             Some f \<Rightarrow> f (BindingBlock bs) s
           | None \<Rightarrow>
               (case mutator_visit_bindings c bs (begin_block s) of
                  Inl x \<Rightarrow> Inl x
                | Inr s1 \<Rightarrow>
                    (case end_block s1 of
                       Inl x \<Rightarrow> Inl x
                     | Inr (bs', s2) \<Rightarrow> Inr (BindingBlock bs', s2)))))"
| "mutator_visit_binding_block c (DataflowBlock bs) s =
     (case f_visit_binding_block c of
        Some f \<Rightarrow> f (DataflowBlock bs) s
      | None \<Rightarrow>
          (case f_visit_binding_block_of c DataflowBlockNode of
             Some f \<Rightarrow> f (DataflowBlock bs) s
           | None \<Rightarrow>
               (case mutator_visit_bindings c bs (begin_block s) of
                  Inl x \<Rightarrow> Inl x
                | Inr s1 \<Rightarrow>
                    (case end_block s1 of
                       Inl x \<Rightarrow> Inl x
                     | Inr (bs', s2) \<Rightarrow> Inr (DataflowBlock bs', s2)))))"
| "mutator_visit_binding_blocks c [] s = Inr ([], s)"
| "mutator_visit_binding_blocks c (b # bs) s =
     (case mutator_visit_binding_block c b s of
        Inl x \<Rightarrow> Inl x
      | Inr (b', s1) \<Rightarrow>
          (case mutator_visit_binding_blocks c bs s1 of
             Inl x \<Rightarrow> Inl x
           | Inr (bs', s2) \<Rightarrow> Inr (b' # bs', s2)))"
  by pat_completeness auto
termination
  by (relation "measure
        (case_sum
          (case_sum
            (case_sum (\<lambda>(c, e, s). 3 * size e + 1) (\<lambda>(c, e, s). 3 * size e))
            (case_sum (\<lambda>(c, es, s). 3 * size_list size es) (\<lambda>(c, e, s). 3 * size e + 2)))
          (case_sum
            (case_sum (\<lambda>(c, b, s). 3 * size b) (\<lambda>(c, bs, s). 3 * size_list size bs))
            (case_sum (\<lambda>(c, b, s). 3 * size b) (\<lambda>(c, bs, s). 3 * size_list size bs))))")
    auto

subsection \<open>Notions used to state the properties\<close>

text \<open>A mutator with no handler supplied at all: every slot has its default \<open>None\<close>.\<close>

definition no_handlers :: "(expr \<Rightarrow> Shape option \<times> Type) \<Rightarrow> mutator_config" where
  "no_handlers si =
     \<lparr>infer = si, f_visit_expr = None, f_visit_expr_of = (\<lambda>K. None),
      f_visit_binding = None, f_visit_binding_of = (\<lambda>K. None), f_visit_binding_block = None,
      f_visit_binding_block_of = (\<lambda>K. None), f_visit_var_def = None,
      f_visit_var_def_of = (\<lambda>K. None), f_rewrite_post_order = (\<lambda>K. None)\<rparr>"

text \<open>The post-order hook that rewrites nothing, and a configuration with it in slot \<open>K\<close>.\<close>

definition identity_hook :: "expr handler" where
  "identity_hook e s = Inr (e, s)"

definition supply_identity_hook :: "mutator_config \<Rightarrow> expr_kind \<Rightarrow> mutator_config" where
  "supply_identity_hook c K =
     c\<lparr>f_rewrite_post_order := (f_rewrite_post_order c)(K := Some identity_hook)\<rparr>"

text \<open>
  A tree is well formed for an inference function when every variable bound by a
  \<open>VarBinding\<close> carries the shape and type inferred for the bound value.
\<close>

fun well_formed :: "(expr \<Rightarrow> Shape option \<times> Type) \<Rightarrow> expr \<Rightarrow> bool"
and well_formed_binding :: "(expr \<Rightarrow> Shape option \<times> Type) \<Rightarrow> binding \<Rightarrow> bool"
and well_formed_block :: "(expr \<Rightarrow> Shape option \<times> Type) \<Rightarrow> block \<Rightarrow> bool"
where
  "well_formed si (Constant k) = True"
| "well_formed si (Tuple es) = list_all (well_formed si) es"
| "well_formed si (EVar v) = True"
| "well_formed si (ShapeExpr vs) = True"
| "well_formed si RuntimeDepShape = True"
| "well_formed si (ExternFunc n) = True"
| "well_formed si (GlobalVar n) = True"
| "well_formed si (Function ps body ret attrs) = well_formed si body"
| "well_formed si (Call f args attrs sinfos) = (well_formed si f \<and> list_all (well_formed si) args)"
| "well_formed si (SeqExpr blocks body) =
     (list_all (well_formed_block si) blocks \<and> well_formed si body)"
| "well_formed si (If cond t f) = (well_formed si cond \<and> well_formed si t \<and> well_formed si f)"
| "well_formed si (Op n) = True"
| "well_formed si (TupleGetItem t i) = well_formed si t"
| "well_formed_binding si (VarBinding v e) =
     (well_formed si e \<and> var_shape v = fst (si e) \<and> var_type v = Some (snd (si e)))"
| "well_formed_binding si (MatchShape e pat v) = well_formed si e"
| "well_formed_block si (BindingBlock bs) = list_all (well_formed_binding si) bs"
| "well_formed_block si (DataflowBlock bs) = list_all (well_formed_binding si) bs"

text \<open>
  A mutator "with no direct overrides and only identity post-order hooks": no override at
  any level, and each post-order slot empty or holding the identity hook.
\<close>

definition identity_mutator :: "mutator_config \<Rightarrow> bool" where
  "identity_mutator c =
     (f_visit_expr c = None \<and> f_visit_binding c = None \<and> f_visit_binding_block c = None
      \<and> f_visit_var_def c = None
      \<and> (\<forall>K. f_visit_expr_of c K = None) \<and> (\<forall>K. f_visit_binding_of c K = None)
      \<and> (\<forall>K. f_visit_binding_block_of c K = None) \<and> (\<forall>K. f_visit_var_def_of c K = None)
      \<and> (\<forall>K. f_rewrite_post_order c K = None \<or> f_rewrite_post_order c K = Some identity_hook))"

text \<open>
  Outcomes of a visit that returns its argument: \<open>unchanged\<close> for a visit that returns a
  node (same node, remap table still empty, same open blocks), \<open>emitted\<close> for the visit of
  bindings (the bindings are appended to the innermost open block).
\<close>

definition unchanged :: "mutator_state \<Rightarrow> 'a \<Rightarrow> py_error + 'a \<times> mutator_state \<Rightarrow> bool" where
  "unchanged s x r =
     (case r of
        Inl err \<Rightarrow> False
      | Inr (x', s') \<Rightarrow> x' = x \<and> var_remap s' = Map.empty \<and> block_stack s' = block_stack s)"

definition emitted :: "mutator_state \<Rightarrow> binding list \<Rightarrow> py_error + mutator_state \<Rightarrow> bool" where
  "emitted s bs r =
     (case r of
        Inl err \<Rightarrow> False
      | Inr s' \<Rightarrow> var_remap s' = Map.empty
           \<and> block_stack s' = (hd (block_stack s) @ bs) # tl (block_stack s))"




text \<open>Emitting a sequence of bindings, first to last.\<close>

fun emit_all :: "binding list \<Rightarrow> mutator_state \<Rightarrow> py_error + mutator_state" where
  "emit_all [] s = Inr s"
| "emit_all (b # bs) s = (case emit b s of Inl x \<Rightarrow> Inl x | Inr s1 \<Rightarrow> emit_all bs s1)"

text \<open>The identities of the variables that the bindings inside a tree bind.\<close>

fun bound_ids :: "expr \<Rightarrow> Id list"
and binding_bound_ids :: "binding \<Rightarrow> Id list"
and block_bound_ids :: "block \<Rightarrow> Id list"
where
  "bound_ids (Constant k) = []"
| "bound_ids (Tuple es) = concat (map bound_ids es)"
| "bound_ids (EVar v) = []"
| "bound_ids (ShapeExpr vs) = []"
| "bound_ids RuntimeDepShape = []"
| "bound_ids (ExternFunc n) = []"
| "bound_ids (GlobalVar n) = []"
| "bound_ids (Function ps body ret attrs) = bound_ids body"
| "bound_ids (Call f args attrs sinfos) = bound_ids f @ concat (map bound_ids args)"
| "bound_ids (SeqExpr blocks body) = concat (map block_bound_ids blocks) @ bound_ids body"
| "bound_ids (If cond t f) = bound_ids cond @ bound_ids t @ bound_ids f"
| "bound_ids (Op n) = []"
| "bound_ids (TupleGetItem t i) = bound_ids t"
| "binding_bound_ids (VarBinding v e) = bound_ids e @ [vid v]"
| "binding_bound_ids (MatchShape e pat v) = bound_ids e @ [vid v]"
| "block_bound_ids (BindingBlock bs) = concat (map binding_bound_ids bs)"
| "block_bound_ids (DataflowBlock bs) = concat (map binding_bound_ids bs)"


section \<open>Properties of the front-end functions\<close>

subsection \<open>\<open>match_cast\<close>\<close>

text \<open>
  Claim C10. \<open>match_cast(value, struct_info)\<close> raises \<open>ValueError\<close> when \<open>value\<close> is
  \<open>None\<close>, raises \<open>ValueError\<close> when \<open>struct_info\<close> is \<open>None\<close>, and for every other pair of
  arguments returns a \<open>MatchCastPair\<close> that holds exactly the two arguments.
\<close>

theorem match_cast_contract:
  "match_cast None si = Inl ValueError
   \<and> match_cast (Some v) None = Inl ValueError
   \<and> match_cast (Some v) (Some s) = Inr \<lparr>value = v, struct_info = s\<rparr>"
  by (simp add: match_cast_def)

theorem match_cast_contract_witness:
  "match_cast (None :: expr option) (Some ObjectStructInfo) = Inl ValueError
   \<and> match_cast (Some (Constant 1)) (None :: StructInfo option) = Inl ValueError
   \<and> match_cast (Some (Constant 1)) (Some ObjectStructInfo)
       = Inr \<lparr>value = Constant 1, struct_info = ObjectStructInfo\<rparr>"
  using match_cast_contract [of "Some ObjectStructInfo" "Constant 1" ObjectStructInfo]
    match_cast_contract [of "None :: StructInfo option" "Constant 1" ObjectStructInfo]
  by simp

subsection \<open>\<open>Tensor\<close>\<close>

text \<open>
  The claim that the proxy holds exactly the given shape fails on the scalar case: the
  empty tuple is replaced by the empty list before the proxy is built.
\<close>

theorem Tensor_empty_tuple_counterexample:
  "Tensor (PyTuple []) (PyStr ''float32'') 0 = Inr (TensorProxy (PyList []) (PyStr ''float32'') 0)
   \<and> shape (TensorProxy (PyList []) (PyStr ''float32'') 0) \<noteq> PyTuple []"
  by (simp add: Tensor_def Tensor_scalar_case_def Tensor_dtype_case_def)

text \<open>
  The length test comes first, so it also sees the values the two later tests are meant
  for: an empty string becomes the empty list and is never taken as the dtype, and an
  unsized value fails in \<open>len\<close> before the check that would have raised \<open>ValueError\<close>.
\<close>

lemma Tensor_empty_string: "Tensor (PyStr []) PyNone n = Inr (TensorProxy (PyList []) PyNone n)"
  by (simp add: Tensor_def Tensor_scalar_case_def Tensor_dtype_case_def)

lemma Tensor_unsized: "Tensor (PyInt i) d n = Inl TypeError"
  by (simp add: Tensor_def Tensor_scalar_case_def Tensor_dtype_case_def)

text \<open>
  Claim C9, amended. With a non-empty string as \<open>shape\<close> and no \<open>dtype\<close>, the string
  becomes the dtype and the proxy has shape \<open>None\<close>. A non-empty sized value that is
  neither a list nor a tuple (and is not a string standing for the dtype) is refused with
  \<open>ValueError\<close>. \<open>None\<close> and every non-empty list or tuple are stored as given, with the
  dtype and ndim given; the empty list and the empty tuple are both stored as the empty
  list.
\<close>

theorem Tensor_contract:
  "(s \<noteq> [] \<longrightarrow> Tensor (PyStr s) PyNone n = Inr (TensorProxy PyNone (PyStr s) n))
   \<and> (py_len sh = Inr k \<and> 0 < k \<and> \<not> isinstance_tuple_list sh \<and> \<not> (isinstance_str sh \<and> d = PyNone)
        \<longrightarrow> Tensor sh d n = Inl ValueError)
   \<and> Tensor PyNone d n = Inr (TensorProxy PyNone d n)
   \<and> (xs \<noteq> [] \<longrightarrow> Tensor (PyList xs) d n = Inr (TensorProxy (PyList xs) d n))
   \<and> (xs \<noteq> [] \<longrightarrow> Tensor (PyTuple xs) d n = Inr (TensorProxy (PyTuple xs) d n))
   \<and> Tensor (PyList []) d n = Inr (TensorProxy (PyList []) d n)
   \<and> Tensor (PyTuple []) d n = Inr (TensorProxy (PyList []) d n)"
  by (cases sh) (auto simp: Tensor_def Tensor_scalar_case_def Tensor_dtype_case_def)

theorem Tensor_contract_witness:
  "Tensor (PyStr ''float32'') PyNone (-1) = Inr (TensorProxy PyNone (PyStr ''float32'') (-1))
   \<and> Tensor (PyStr ''n'') (PyStr ''float32'') 1 = Inl ValueError
   \<and> Tensor (PyList [PyInt 2, PyInt 3]) (PyStr ''float32'') 2
       = Inr (TensorProxy (PyList [PyInt 2, PyInt 3]) (PyStr ''float32'') 2)
   \<and> Tensor (PyTuple [PyInt 2]) PyNone 1 = Inr (TensorProxy (PyTuple [PyInt 2]) PyNone 1)"
  using Tensor_contract [of "''float32''" "-1" "PyStr ''n''" 1 "PyStr ''float32''" "[PyInt 2, PyInt 3]"]
    Tensor_contract [of "''float32''" "1" "PyStr ''n''" 1 "PyStr ''float32''" "[PyInt 2, PyInt 3]"]
    Tensor_contract [of "''float32''" "2" "PyStr ''n''" 1 "PyStr ''float32''" "[PyInt 2, PyInt 3]"]
    Tensor_contract [of "''float32''" "1" "PyStr ''n''" 1 "PyNone" "[PyInt 2]"]
  by simp

subsection \<open>\<open>call_packed\<close>\<close>

lemma convert_sinfo_args_Inr:
  "convert_sinfo_args ev as = Inr bs \<longleftrightarrow> list_all2 (\<lambda>a b. convert_sinfo_arg ev a = Inr b) as bs"
proof (induction as arbitrary: bs)
  case Nil
  show ?case by auto
next
  case (Cons a as)
  show ?case
    by (cases bs) (auto simp: Cons.IH [symmetric] split: sum.splits)
qed

lemma convert_sinfo_args_Inl:
  "a \<in> set as \<Longrightarrow> convert_sinfo_arg ev a = Inl e \<Longrightarrow> \<exists>e'. convert_sinfo_args ev as = Inl e'"
  by (induction as) (auto split: sum.splits)

text \<open>What the loop body does to each sort of element.\<close>

lemma convert_sinfo_arg_cases:
  "convert_sinfo_arg ev (PyStructInfo si) = Inr (PyStructInfo si)"
  "convert_sinfo_arg ev (PyProxy p) = map_sum id PyStructInfo (asobject ev p)"
  "convert_sinfo_arg ev (PyCallable (Inr (PyProxy p))) = map_sum id PyStructInfo (asobject ev p)"
  "convert_sinfo_arg ev (PyCallable (Inl e)) = Inl e"
  by (auto simp: convert_sinfo_arg_def split: sum.splits)

text \<open>
  The claim that every \<open>sinfo_args\<close> other than \<open>None\<close> yields a \<open>Call\<close> fails when the
  conversion of an element raises: a tensor proxy with a string dimension cannot be
  turned into a struct info by \<open>asobject\<close>, and \<open>call_packed\<close> raises \<open>ValueError\<close>.
\<close>

theorem call_packed_string_dim_counterexample:
  "PyProxy (TensorProxy (PyList [PyStr ''n'']) (PyStr ''float32'') (-1)) \<noteq> PyNone
   \<and> call_packed (\<lambda>s g. Inr (PyPrimExpr 0)) (\<lambda>k kw. Inr (Attrs k kw)) ''f'' []
       (PyProxy (TensorProxy (PyList [PyStr ''n'']) (PyStr ''float32'') (-1))) []
     = Inl ValueError"
  by (simp add: call_packed_def convert_sinfo_arg_def asobject_def)

text \<open>
  Claim C8, amended. \<open>call_packed\<close> raises \<open>ValueError\<close> when \<open>sinfo_args\<close> is \<open>None\<close>.
  Otherwise \<open>sinfo_args\<close> is made a list (a tuple or a list gives its elements, anything
  else a one-element list); when the conversion of every element succeeds and the attrs
  can be built, the result is a \<open>Call\<close> of \<open>ExternFunc(func)\<close> on \<open>args\<close> whose
  \<open>sinfo_args\<close> are the converted elements, in order; when the conversion of some element
  raises, \<open>call_packed\<close> raises.
\<close>

theorem call_packed_contract:
  "call_packed ev mk func args PyNone kwargs = Inl ValueError
   \<and> (sinfo_args \<noteq> PyNone
        \<and> list_all2 (\<lambda>a b. convert_sinfo_arg ev a = Inr b) (sinfo_args_as_list sinfo_args) sinfos
        \<and> call_packed_attrs mk kwargs = Inr attrs
      \<longrightarrow> call_packed ev mk func args sinfo_args kwargs
            = Inr (Call (ExternFunc func) args attrs sinfos))
   \<and> (sinfo_args \<noteq> PyNone \<and> a \<in> set (sinfo_args_as_list sinfo_args)
        \<and> convert_sinfo_arg ev a = Inl e
      \<longrightarrow> (\<exists>e'. call_packed ev mk func args sinfo_args kwargs = Inl e'))"
proof (intro conjI impI)
  show "call_packed ev mk func args PyNone kwargs = Inl ValueError"
    by (simp add: call_packed_def)
next
  assume h: "sinfo_args \<noteq> PyNone
        \<and> list_all2 (\<lambda>a b. convert_sinfo_arg ev a = Inr b) (sinfo_args_as_list sinfo_args) sinfos
        \<and> call_packed_attrs mk kwargs = Inr attrs"
  then have "convert_sinfo_args ev (sinfo_args_as_list sinfo_args) = Inr sinfos"
    by (simp add: convert_sinfo_args_Inr)
  with h show "call_packed ev mk func args sinfo_args kwargs
            = Inr (Call (ExternFunc func) args attrs sinfos)"
    by (simp add: call_packed_def)
next
  assume h: "sinfo_args \<noteq> PyNone \<and> a \<in> set (sinfo_args_as_list sinfo_args)
        \<and> convert_sinfo_arg ev a = Inl e"
  then obtain e' where "convert_sinfo_args ev (sinfo_args_as_list sinfo_args) = Inl e'"
    using convert_sinfo_args_Inl by blast
  with h show "\<exists>e'. call_packed ev mk func args sinfo_args kwargs = Inl e'"
    by (simp add: call_packed_def)
qed

theorem call_packed_contract_witness:
  "call_packed (\<lambda>s g. Inr (PyPrimExpr 0)) (\<lambda>k kw. Inr (Attrs k kw)) ''f'' [Constant 1]
       (PyTuple [PyCallable (Inr (PyProxy (TensorProxy PyNone PyNone (-1)))), PyProxy ObjectProxy]) []
     = Inr (Call (ExternFunc ''f'') [Constant 1] None
         [PyStructInfo (TensorStructInfo PyNone PyNone (-1)), PyStructInfo ObjectStructInfo])
   \<and> (\<exists>e'. call_packed (\<lambda>s g. Inr (PyPrimExpr 0)) (\<lambda>k kw. Inr (Attrs k kw)) ''f'' []
       (PyProxy StructInfoProxy) [] = Inl e')"
proof -
  let ?ev = "\<lambda>(s::string) (g::py_globals). (Inr (PyPrimExpr 0) :: py_error + pyobj)"
  let ?mk = "\<lambda>k kw. (Inr (Attrs k kw) :: py_error + Attrs)"
  let ?sa = "PyTuple [PyCallable (Inr (PyProxy (TensorProxy PyNone PyNone (-1)))), PyProxy ObjectProxy]"
  let ?l = "[PyStructInfo (TensorStructInfo PyNone PyNone (-1)), PyStructInfo ObjectStructInfo]"
  have 1: "?sa \<noteq> PyNone
        \<and> list_all2 (\<lambda>a b. convert_sinfo_arg ?ev a = Inr b) (sinfo_args_as_list ?sa) ?l
        \<and> call_packed_attrs ?mk [] = Inr None"
    by (simp add: convert_sinfo_arg_def asobject_def call_packed_attrs_def)
  have 2: "PyProxy StructInfoProxy \<noteq> PyNone
        \<and> PyProxy StructInfoProxy \<in> set (sinfo_args_as_list (PyProxy StructInfoProxy))
        \<and> convert_sinfo_arg ?ev (PyProxy StructInfoProxy) = Inl NotImplementedError"
    by (simp add: convert_sinfo_arg_def asobject_def)
  show ?thesis
    using 1 2
      call_packed_contract [of ?ev ?mk "''f''" "[Constant 1]" "[]" ?sa ?l None]
      call_packed_contract [of ?ev ?mk "''f''" "[]" "[]" "PyProxy StructInfoProxy" _ _
        "PyProxy StructInfoProxy" NotImplementedError]
    by blast
qed

section \<open>Properties of the user-facing classes\<close>

text \<open>
  Claim C1. In class \<open>PyExprVisitor\<close>, a handler that the user class does not override
  raises \<open>NotImplementedError\<close> when it is invoked, whatever its argument: every
  \<open>visit_<K>_\<close>, and \<open>visit_type\<close> and \<open>visit_span\<close> as well. The four generic dispatchers
  \<open>visit_expr\<close>, \<open>visit_binding\<close>, \<open>visit_binding_block\<close> and \<open>visit_var_def\<close> raise nothing
  of their own when they are not overridden: each returns what the engine's entry point
  of the same name returns.
\<close>

theorem visitor_handlers_unimplemented:
  assumes "overrides m = None" and "m \<in> set PyExprVisitor_methods"
  shows "(m \<notin> set generic_dispatchers
            \<longrightarrow> invoke (PyExprVisitor ffi) overrides m x = Inl NotImplementedError)
    \<and> (m = visit_expr
            \<longrightarrow> invoke (PyExprVisitor ffi) overrides m x = PyExprVisitorVisitExpr ffi x)
    \<and> (m = visit_binding
            \<longrightarrow> invoke (PyExprVisitor ffi) overrides m x = PyExprVisitorVisitBinding ffi x)
    \<and> (m = visit_binding_block
            \<longrightarrow> invoke (PyExprVisitor ffi) overrides m x = PyExprVisitorVisitBindingBlock ffi x)
    \<and> (m = visit_var_def
            \<longrightarrow> invoke (PyExprVisitor ffi) overrides m x = PyExprVisitorVisitVarDef ffi x)"
  using assms
  by (cases m) (auto simp: invoke_def generic_dispatchers_def PyExprVisitor_methods_def)

theorem visitor_handlers_unimplemented_witness:
  "invoke (PyExprVisitor \<lparr>PyExprVisitorVisitExpr = \<lambda>e. Inr (), PyExprVisitorVisitBinding = \<lambda>e. Inr (),
        PyExprVisitorVisitBindingBlock = \<lambda>e. Inr (), PyExprVisitorVisitVarDef = \<lambda>e. Inr ()\<rparr>)
      (\<lambda>m. None) (visit_expr_of CallNode) (Constant 1) = Inl NotImplementedError
   \<and> invoke (PyExprVisitor \<lparr>PyExprVisitorVisitExpr = \<lambda>e. Inr (), PyExprVisitorVisitBinding = \<lambda>e. Inr (),
        PyExprVisitorVisitBindingBlock = \<lambda>e. Inr (), PyExprVisitorVisitVarDef = \<lambda>e. Inr ()\<rparr>)
      (\<lambda>m. None) visit_expr (Constant 1) = Inr ()"
proof -
  let ?ffi = "\<lparr>PyExprVisitorVisitExpr = \<lambda>e::expr. (Inr () :: py_error + unit),
        PyExprVisitorVisitBinding = \<lambda>e. Inr (),
        PyExprVisitorVisitBindingBlock = \<lambda>e. Inr (), PyExprVisitorVisitVarDef = \<lambda>e. Inr ()\<rparr>"
  let ?ov = "\<lambda>m::py_method. (None :: (expr \<Rightarrow> py_error + unit) option)"
  have 1: "?ov (visit_expr_of CallNode) = None" and 2: "?ov visit_expr = None"
    by simp_all
  have 3: "visit_expr_of CallNode \<in> set PyExprVisitor_methods"
    and 4: "visit_expr \<in> set PyExprVisitor_methods"
    by (simp_all add: PyExprVisitor_methods_def all_expr_kinds_def)
  have 5: "visit_expr_of CallNode \<notin> set generic_dispatchers"
    by (simp add: generic_dispatchers_def)
  show ?thesis
    using visitor_handlers_unimplemented [OF 1 3, of ?ffi "Constant 1"]
      visitor_handlers_unimplemented [OF 2 4, of ?ffi "Constant 1"] 5
    by simp
qed

section \<open>Properties of the mutator engine\<close>

lemmas engine_induct =
  mutator_visit_expr_visit_expr_post_order_mutator_visit_exprs_visit_with_new_scope_mutator_visit_binding_mutator_visit_bindings_mutator_visit_binding_block_mutator_visit_binding_blocks.induct

declare mutator_visit_expr.simps [simp del] visit_with_new_scope.simps [simp del]

subsection \<open>Construction\<close>

text \<open>
  Claim C3. For every node kind \<open>K\<close>, constructing a mutator with both the direct
  override \<open>visit_<K>_\<close> and the post-order hook \<open>rewrite_<K>_post_order\<close> fails with a
  configuration error: no instance is returned, so no traversal can start. Conversely a
  constructed instance has, for no kind, both supplied.
\<close>

theorem mutual_exclusivity:
  "(both_supplied c K \<longrightarrow> MakePyExprMutator c = Inl ConfigurationError)
   \<and> (MakePyExprMutator c = Inr m \<longrightarrow> m = (c, initial_state) \<and> \<not> both_supplied c K)"
proof -
  have "K \<in> set all_expr_kinds"
    by (cases K) (simp_all add: all_expr_kinds_def)
  then have "both_supplied c K \<Longrightarrow> list_ex (both_supplied c) all_expr_kinds"
    by (auto simp: list_ex_iff)
  then show ?thesis
    by (auto simp: MakePyExprMutator_def split: if_splits)
qed

theorem mutual_exclusivity_witness:
  "MakePyExprMutator
     ((no_handlers (\<lambda>e. (None, ''Object'')))
        \<lparr>f_visit_expr_of := (\<lambda>K. None)(CallNode := Some identity_hook),
         f_rewrite_post_order := (\<lambda>K. None)(CallNode := Some identity_hook)\<rparr>)
     = Inl ConfigurationError
   \<and> MakePyExprMutator (no_handlers (\<lambda>e. (None, ''Object'')))
     = Inr (no_handlers (\<lambda>e. (None, ''Object'')), initial_state)"
proof -
  let ?plain = "no_handlers (\<lambda>e. (None, ''Object''))"
  let ?both = "?plain\<lparr>f_visit_expr_of := (\<lambda>K. None)(CallNode := Some identity_hook),
         f_rewrite_post_order := (\<lambda>K. None)(CallNode := Some identity_hook)\<rparr>"
  have 1: "both_supplied ?both CallNode"
    by (simp add: both_supplied_def)
  have 2: "MakePyExprMutator ?plain = Inr (?plain, initial_state)"
    by (simp add: MakePyExprMutator_def no_handlers_def both_supplied_def all_expr_kinds_def)
  show ?thesis
    using 1 2 mutual_exclusivity [of ?both CallNode]
      mutual_exclusivity [of ?plain CallNode "(?plain, initial_state)"]
    by simp
qed

subsection \<open>\<open>with_shape_and_type\<close>\<close>

text \<open>
  Claim C7. \<open>with_shape_and_type(var, shape, t)\<close> returns a newly created variable
  exactly when the shape or the type of \<open>var\<close> differs from the ones specified; the new
  variable carries the specified shape and type (and the identity, name and kind of
  \<open>var\<close>). No variable that existed before is changed, \<open>var\<close> included. When shape and
  type already match, \<open>var\<close> itself is returned and nothing is created.
\<close>

theorem with_shape_and_type_fresh:
  assumes "a < length h"
  shows "\<exists>a' h'. with_shape_and_type_obj h a sh t = Inr (a', h')
     \<and> a' < length h' \<and> h' ! a' = with_shape_and_type (h ! a) sh t
     \<and> take (length h) h' = h
     \<and> (a' = a \<longleftrightarrow> var_shape (h ! a) = sh \<and> var_type (h ! a) = Some t)
     \<and> (a' = a \<longrightarrow> h' = h)
     \<and> (a' \<noteq> a \<longrightarrow> a' = length h \<and> length h' = Suc (length h)
           \<and> var_shape (h' ! a') = sh \<and> var_type (h' ! a') = Some t
           \<and> vid (h' ! a') = vid (h ! a) \<and> name_hint (h' ! a') = name_hint (h ! a)
           \<and> var_kind_of (h' ! a') = var_kind_of (h ! a))"
  using assms
  by (cases "h ! a") (auto simp: with_shape_and_type_obj_def with_shape_and_type_def nth_append)

theorem with_shape_and_type_fresh_witness:
  "with_shape_and_type_obj [Var 1 ''x'' None None] 0 (Some [2, 3]) ''Tensor''
     = Inr (1, [Var 1 ''x'' None None, Var 1 ''x'' (Some [2, 3]) (Some ''Tensor'')])
   \<and> with_shape_and_type_obj [Var 1 ''x'' (Some [2, 3]) (Some ''Tensor'')] 0 (Some [2, 3]) ''Tensor''
     = Inr (0, [Var 1 ''x'' (Some [2, 3]) (Some ''Tensor'')])"
proof -
  have 1: "(0::nat) < length [Var 1 ''x'' None None]" by simp
  have 2: "(0::nat) < length [Var 1 ''x'' (Some [2, 3]) (Some ''Tensor'')]" by simp
  obtain a' h' where a: "with_shape_and_type_obj [Var 1 ''x'' None None] 0 (Some [2, 3]) ''Tensor''
       = Inr (a', h')"
      "a' = 0 \<longleftrightarrow> var_shape ([Var 1 ''x'' None None] ! 0) = Some [2, 3]
          \<and> var_type ([Var 1 ''x'' None None] ! 0) = Some ''Tensor''"
      "a' \<noteq> 0 \<longrightarrow> a' = length [Var 1 ''x'' None None]"
      "take (length [Var 1 ''x'' None None]) h' = [Var 1 ''x'' None None]"
      "a' \<noteq> 0 \<longrightarrow> length h' = Suc (length [Var 1 ''x'' None None])"
      "h' ! a' = with_shape_and_type ([Var 1 ''x'' None None] ! 0) (Some [2, 3]) ''Tensor''"
    using with_shape_and_type_fresh [OF 1, of "Some [2, 3]" "''Tensor''"] by blast
  obtain b' k' where b: "with_shape_and_type_obj [Var 1 ''x'' (Some [2, 3]) (Some ''Tensor'')] 0
         (Some [2, 3]) ''Tensor'' = Inr (b', k')"
      "b' = 0 \<longleftrightarrow> var_shape ([Var 1 ''x'' (Some [2, 3]) (Some ''Tensor'')] ! 0) = Some [2, 3]
          \<and> var_type ([Var 1 ''x'' (Some [2, 3]) (Some ''Tensor'')] ! 0) = Some ''Tensor''"
      "b' = 0 \<longrightarrow> k' = [Var 1 ''x'' (Some [2, 3]) (Some ''Tensor'')]"
    using with_shape_and_type_fresh [OF 2, of "Some [2, 3]" "''Tensor''"] by blast
  have "a' = 1" using a(2,3) by simp
  moreover have "h' = [Var 1 ''x'' None None, Var 1 ''x'' (Some [2, 3]) (Some ''Tensor'')]"
    using a(4,5,6) \<open>a' = 1\<close>
    by (cases h'; cases "tl h'"; cases "tl (tl h')") (auto simp: with_shape_and_type_def)
  moreover have "b' = 0" using b(2) by simp
  moreover have "k' = [Var 1 ''x'' (Some [2, 3]) (Some ''Tensor'')]" using b(3) \<open>b' = 0\<close> by simp
  ultimately show ?thesis using a(1) b(1) by simp
qed

subsection \<open>Omitted post-order hooks\<close>

lemma supply_identity_hook_fields [simp]:
  "infer (supply_identity_hook c K) = infer c"
  "f_visit_expr (supply_identity_hook c K) = f_visit_expr c"
  "f_visit_expr_of (supply_identity_hook c K) = f_visit_expr_of c"
  "f_visit_binding (supply_identity_hook c K) = f_visit_binding c"
  "f_visit_binding_of (supply_identity_hook c K) = f_visit_binding_of c"
  "f_visit_binding_block (supply_identity_hook c K) = f_visit_binding_block c"
  "f_visit_binding_block_of (supply_identity_hook c K) = f_visit_binding_block_of c"
  "f_visit_var_def (supply_identity_hook c K) = f_visit_var_def c"
  "f_visit_var_def_of (supply_identity_hook c K) = f_visit_var_def_of c"
  "f_rewrite_post_order (supply_identity_hook c K) = (f_rewrite_post_order c)(K := Some identity_hook)"
  by (simp_all add: supply_identity_hook_def)

lemma var_def_supply [simp]:
  "mutator_visit_var_def (supply_identity_hook c K) v s = mutator_visit_var_def c v s"
  by (simp add: mutator_visit_var_def_def split: option.splits)

lemma var_defs_supply [simp]:
  "mutator_visit_var_defs (supply_identity_hook c K) vs s = mutator_visit_var_defs c vs s"
  by (induction vs arbitrary: s) (simp_all split: sum.splits)

lemma omitted_hook_is_identity_hook:
  "f_rewrite_post_order c K = None \<Longrightarrow>
     mutator_visit_expr (supply_identity_hook c K) e s = mutator_visit_expr c e s"
  "f_rewrite_post_order c K = None \<Longrightarrow>
     visit_expr_post_order (supply_identity_hook c K) e s = visit_expr_post_order c e s"
  "f_rewrite_post_order c K = None \<Longrightarrow>
     mutator_visit_exprs (supply_identity_hook c K) es s = mutator_visit_exprs c es s"
  "f_rewrite_post_order c K = None \<Longrightarrow>
     visit_with_new_scope (supply_identity_hook c K) e s = visit_with_new_scope c e s"
  "f_rewrite_post_order c K = None \<Longrightarrow>
     mutator_visit_binding (supply_identity_hook c K) b s = mutator_visit_binding c b s"
  "f_rewrite_post_order c K = None \<Longrightarrow>
     mutator_visit_bindings (supply_identity_hook c K) bs s = mutator_visit_bindings c bs s"
  "f_rewrite_post_order c K = None \<Longrightarrow>
     mutator_visit_binding_block (supply_identity_hook c K) bl s = mutator_visit_binding_block c bl s"
  "f_rewrite_post_order c K = None \<Longrightarrow>
     mutator_visit_binding_blocks (supply_identity_hook c K) bls s = mutator_visit_binding_blocks c bls s"
proof (induct c e s and c e s and c es s and c e s and c b s and c bs s and c bl s and c bls s
    rule: engine_induct)
  case (1 c e s)
  then show ?case
    by (auto simp: mutator_visit_expr.simps identity_hook_def
        split: option.splits sum.splits)
next
  case (17 c e s)
  then show ?case
    by (simp add: visit_with_new_scope.simps split: sum.splits)
qed (auto split: option.splits sum.splits)

text \<open>
  The claim that an unsupplied post-order hook never raises, unlike an unsupplied direct
  override, fails on class \<open>PyExprMutator\<close>: the body of each \<open>rewrite_<K>_post_order\<close> is
  \<open>raise NotImplementedError\<close>, the same as the body of each \<open>visit_<K>_\<close>.
\<close>

theorem unsupplied_hook_raises_counterexample:
  "invoke (PyExprMutator \<lparr>PyExprMutatorVisitExpr = \<lambda>e. Inr e, PyExprMutatorVisitBinding = \<lambda>e. Inr e,
        PyExprMutatorVisitBindingBlock = \<lambda>e. Inr e, PyExprMutatorVisitVarDef = \<lambda>e. Inr e\<rparr>)
      (\<lambda>m. None) (rewrite_post_order CallNode) (Call (Op ''add'') [] None [])
     = Inl NotImplementedError
   \<and> invoke (PyExprMutator \<lparr>PyExprMutatorVisitExpr = \<lambda>e. Inr e, PyExprMutatorVisitBinding = \<lambda>e. Inr e,
        PyExprMutatorVisitBindingBlock = \<lambda>e. Inr e, PyExprMutatorVisitVarDef = \<lambda>e. Inr e\<rparr>)
      (\<lambda>m. None) (visit_expr_of CallNode) (Call (Op ''add'') [] None [])
     = Inl NotImplementedError"
  by (simp add: invoke_def)

text \<open>
  Claim C2, amended. For every expression kind \<open>K\<close>, a traversal by a mutator whose
  \<open>rewrite_<K>_post_order\<close> hook is not supplied gives what it gives with the identity
  function supplied as that hook; where neither an override nor a hook applies to a node,
  the node reconstructed from the recursed children is returned as it is. The method
  \<open>rewrite_<K>_post_order\<close> itself, when the user class does not override it, raises
  \<open>NotImplementedError\<close> when invoked, exactly as an unsupplied \<open>visit_<K>_\<close> does.
\<close>

theorem omitted_post_order_hook:
  "(f_rewrite_post_order c K = None
      \<longrightarrow> mutator_visit_expr (supply_identity_hook c K) e s = mutator_visit_expr c e s)
   \<and> (f_visit_expr c = None \<and> f_visit_expr_of c (kind_of e) = None
        \<and> f_rewrite_post_order c (kind_of e) = None
      \<longrightarrow> mutator_visit_expr c e s = visit_expr_post_order c e s)
   \<and> (overrides (rewrite_post_order K) = None
      \<longrightarrow> invoke (PyExprMutator ffi) overrides (rewrite_post_order K) x = Inl NotImplementedError)
   \<and> (overrides (visit_expr_of K) = None
      \<longrightarrow> invoke (PyExprMutator ffi) overrides (visit_expr_of K) x = Inl NotImplementedError)"
proof (intro conjI impI)
  assume "f_rewrite_post_order c K = None"
  then show "mutator_visit_expr (supply_identity_hook c K) e s = mutator_visit_expr c e s"
    by (rule omitted_hook_is_identity_hook(1))
next
  assume "f_visit_expr c = None \<and> f_visit_expr_of c (kind_of e) = None
        \<and> f_rewrite_post_order c (kind_of e) = None"
  then show "mutator_visit_expr c e s = visit_expr_post_order c e s"
    by (simp add: mutator_visit_expr.simps split: sum.splits)
next
  assume "overrides (rewrite_post_order K) = None"
  then show "invoke (PyExprMutator ffi) overrides (rewrite_post_order K) x = Inl NotImplementedError"
    by (simp add: invoke_def)
next
  assume "overrides (visit_expr_of K) = None"
  then show "invoke (PyExprMutator ffi) overrides (visit_expr_of K) x = Inl NotImplementedError"
    by (simp add: invoke_def)
qed

theorem omitted_post_order_hook_witness:
  "mutator_visit_expr (supply_identity_hook (no_handlers (\<lambda>e. (None, ''Object''))) CallNode)
       (Call (Op ''add'') [Constant 1, Constant 2] None []) initial_state
     = mutator_visit_expr (no_handlers (\<lambda>e. (None, ''Object'')))
       (Call (Op ''add'') [Constant 1, Constant 2] None []) initial_state
   \<and> mutator_visit_expr (no_handlers (\<lambda>e. (None, ''Object'')))
       (Call (Op ''add'') [Constant 1, Constant 2] None []) initial_state
     = visit_expr_post_order (no_handlers (\<lambda>e. (None, ''Object'')))
       (Call (Op ''add'') [Constant 1, Constant 2] None []) initial_state
   \<and> invoke (PyExprMutator \<lparr>PyExprMutatorVisitExpr = \<lambda>e. Inr e, PyExprMutatorVisitBinding = \<lambda>e. Inr e,
        PyExprMutatorVisitBindingBlock = \<lambda>e. Inr e, PyExprMutatorVisitVarDef = \<lambda>e. Inr e\<rparr>)
      (\<lambda>m. None) (rewrite_post_order CallNode) (Constant 1) = Inl NotImplementedError"
proof -
  let ?c = "no_handlers (\<lambda>e. (None, ''Object''))"
  let ?e = "Call (Op ''add'') [Constant 1, Constant 2] None []"
  let ?ffi = "\<lparr>PyExprMutatorVisitExpr = \<lambda>e::expr. (Inr e :: py_error + expr),
        PyExprMutatorVisitBinding = \<lambda>e. Inr e,
        PyExprMutatorVisitBindingBlock = \<lambda>e. Inr e, PyExprMutatorVisitVarDef = \<lambda>e. Inr e\<rparr>"
  let ?ov = "\<lambda>m::py_method. (None :: (expr \<Rightarrow> py_error + expr) option)"
  have 1: "f_rewrite_post_order ?c CallNode = None"
    and 2: "f_visit_expr ?c = None \<and> f_visit_expr_of ?c (kind_of ?e) = None
        \<and> f_rewrite_post_order ?c (kind_of ?e) = None"
    by (simp_all add: no_handlers_def)
  have 3: "?ov (rewrite_post_order CallNode) = None" by simp
  show ?thesis
    using 1 2 3 omitted_post_order_hook [of ?c CallNode ?e initial_state ?ov ?ffi "Constant 1"]
    by simp
qed

subsection \<open>Identity mutation\<close>

lemma unchangedI: "r = Inr (x, s') \<Longrightarrow> var_remap s' = Map.empty \<Longrightarrow> block_stack s' = block_stack s \<Longrightarrow> unchanged s x r"
  by (simp add: unchanged_def)

lemma unchangedE:
  assumes "unchanged s x r"
  obtains s' where "r = Inr (x, s')" "var_remap s' = Map.empty" "block_stack s' = block_stack s"
  using assms by (auto simp: unchanged_def split: sum.splits)

lemma emittedE:
  assumes "emitted s bs r"
  obtains s' where "r = Inr s'" "var_remap s' = Map.empty"
    "block_stack s' = (hd (block_stack s) @ bs) # tl (block_stack s)"
  using assms by (auto simp: emitted_def split: sum.splits)

lemma var_def_identity:
  "identity_mutator c \<Longrightarrow> mutator_visit_var_def c v s = Inr (v, s)"
  by (simp add: identity_mutator_def mutator_visit_var_def_def)

lemma var_defs_identity:
  "identity_mutator c \<Longrightarrow> mutator_visit_var_defs c vs s = Inr (vs, s)"
  by (induction vs arbitrary: s) (simp_all add: var_def_identity)

lemma identity_traversal:
  "identity_mutator c \<Longrightarrow> well_formed (infer c) e \<Longrightarrow> var_remap s = Map.empty
     \<Longrightarrow> unchanged s e (mutator_visit_expr c e s)"
  "identity_mutator c \<Longrightarrow> well_formed (infer c) e \<Longrightarrow> var_remap s = Map.empty
     \<Longrightarrow> unchanged s e (visit_expr_post_order c e s)"
  "identity_mutator c \<Longrightarrow> list_all (well_formed (infer c)) es \<Longrightarrow> var_remap s = Map.empty
     \<Longrightarrow> unchanged s es (mutator_visit_exprs c es s)"
  "identity_mutator c \<Longrightarrow> well_formed (infer c) e \<Longrightarrow> var_remap s = Map.empty
     \<Longrightarrow> unchanged s e (visit_with_new_scope c e s)"
  "identity_mutator c \<Longrightarrow> well_formed_binding (infer c) b \<Longrightarrow> var_remap s = Map.empty
     \<Longrightarrow> block_stack s \<noteq> [] \<Longrightarrow> emitted s [b] (mutator_visit_binding c b s)"
  "identity_mutator c \<Longrightarrow> list_all (well_formed_binding (infer c)) bs \<Longrightarrow> var_remap s = Map.empty
     \<Longrightarrow> block_stack s \<noteq> [] \<Longrightarrow> emitted s bs (mutator_visit_bindings c bs s)"
  "identity_mutator c \<Longrightarrow> well_formed_block (infer c) bl \<Longrightarrow> var_remap s = Map.empty
     \<Longrightarrow> unchanged s bl (mutator_visit_binding_block c bl s)"
  "identity_mutator c \<Longrightarrow> list_all (well_formed_block (infer c)) bls \<Longrightarrow> var_remap s = Map.empty
     \<Longrightarrow> unchanged s bls (mutator_visit_binding_blocks c bls s)"
proof (induct c e s and c e s and c es s and c e s and c b s and c bs s and c bl s and c bls s
    rule: engine_induct)
  case (1 c e s)
  have none: "f_visit_expr c = None" "f_visit_expr_of c (kind_of e) = None"
    using 1(2) by (simp_all add: identity_mutator_def)
  have hook: "f_rewrite_post_order c (kind_of e) = None
      \<or> f_rewrite_post_order c (kind_of e) = Some identity_hook"
    using 1(2) by (simp add: identity_mutator_def)
  have "unchanged s e (visit_expr_post_order c e s)"
    using 1 none by simp
  then obtain s' where "visit_expr_post_order c e s = Inr (e, s')" "var_remap s' = Map.empty"
      "block_stack s' = block_stack s"
    by (rule unchangedE)
  then show ?case
    using none hook
    by (auto simp: mutator_visit_expr.simps identity_hook_def unchanged_def)
next
  case (3 c es s)
  from "3.hyps" [OF "3.prems"(1) _ "3.prems"(3)] "3.prems"(2)
  have "unchanged s es (mutator_visit_exprs c es s)" by simp
  then show ?case by (auto simp: unchanged_def split: sum.splits)
next
  case (9 c ps body ret attrs s)
  have 0: "mutator_visit_var_defs c ps s = Inr (ps, s)"
    using "9.prems"(1) by (rule var_defs_identity)
  from "9.hyps" [OF 0 refl "9.prems"(1) _ "9.prems"(3)] "9.prems"(2)
  have "unchanged s body (visit_with_new_scope c body s)" by simp
  then show ?case using 0 by (auto simp: unchanged_def split: sum.splits)
next
  case (10 c f args attrs sinfos s)
  have wf: "well_formed (infer c) f" "list_all (well_formed (infer c)) args"
    using "10.prems"(2) by simp_all
  from "10.hyps"(1) [OF "10.prems"(1) wf(1) "10.prems"(3)]
  obtain s1 where 1: "mutator_visit_expr c f s = Inr (f, s1)" "var_remap s1 = Map.empty"
      "block_stack s1 = block_stack s"
    by (rule unchangedE)
  from "10.hyps"(2) [OF 1(1) refl "10.prems"(1) wf(2) 1(2)]
  obtain s2 where 2: "mutator_visit_exprs c args s1 = Inr (args, s2)" "var_remap s2 = Map.empty"
      "block_stack s2 = block_stack s1"
    by (rule unchangedE)
  show ?case using 1 2 by (simp add: unchanged_def)
next
  case (11 c blocks body s)
  have wf: "list_all (well_formed_block (infer c)) blocks" "well_formed (infer c) body"
    using "11.prems"(2) by simp_all
  from "11.hyps"(1) [OF "11.prems"(1) wf(1) "11.prems"(3)]
  obtain s1 where 1: "mutator_visit_binding_blocks c blocks s = Inr (blocks, s1)"
      "var_remap s1 = Map.empty" "block_stack s1 = block_stack s"
    by (rule unchangedE)
  from "11.hyps"(2) [OF 1(1) refl "11.prems"(1) wf(2) 1(2)]
  obtain s2 where 2: "mutator_visit_expr c body s1 = Inr (body, s2)" "var_remap s2 = Map.empty"
      "block_stack s2 = block_stack s1"
    by (rule unchangedE)
  show ?case using 1 2 by (simp add: unchanged_def)
next
  case (12 c cond t f s)
  have wf: "well_formed (infer c) cond" "well_formed (infer c) t" "well_formed (infer c) f"
    using "12.prems"(2) by simp_all
  from "12.hyps"(1) [OF "12.prems"(1) wf(1) "12.prems"(3)]
  obtain s1 where 1: "mutator_visit_expr c cond s = Inr (cond, s1)" "var_remap s1 = Map.empty"
      "block_stack s1 = block_stack s"
    by (rule unchangedE)
  from "12.hyps"(2) [OF 1(1) refl "12.prems"(1) wf(2) 1(2)]
  obtain s2 where 2: "visit_with_new_scope c t s1 = Inr (t, s2)" "var_remap s2 = Map.empty"
      "block_stack s2 = block_stack s1"
    by (rule unchangedE)
  from "12.hyps"(3) [OF 1(1) refl 2(1) refl "12.prems"(1) wf(3) 2(2)]
  obtain s3 where 3: "visit_with_new_scope c f s2 = Inr (f, s3)" "var_remap s3 = Map.empty"
      "block_stack s3 = block_stack s2"
    by (rule unchangedE)
  show ?case using 1 2 3 by (simp add: unchanged_def)
next
  case (14 c t i s)
  from "14.hyps" [OF "14.prems"(1) _ "14.prems"(3)] "14.prems"(2)
  have "unchanged s t (mutator_visit_expr c t s)" by simp
  then show ?case by (auto simp: unchanged_def split: sum.splits)
next
  case (16 c e es s)
  have wf: "well_formed (infer c) e" "list_all (well_formed (infer c)) es"
    using "16.prems"(2) by simp_all
  from "16.hyps"(1) [OF "16.prems"(1) wf(1) "16.prems"(3)]
  obtain s1 where 1: "mutator_visit_expr c e s = Inr (e, s1)" "var_remap s1 = Map.empty"
      "block_stack s1 = block_stack s"
    by (rule unchangedE)
  from "16.hyps"(2) [OF 1(1) refl "16.prems"(1) wf(2) 1(2)]
  obtain s2 where 2: "mutator_visit_exprs c es s1 = Inr (es, s2)" "var_remap s2 = Map.empty"
      "block_stack s2 = block_stack s1"
    by (rule unchangedE)
  show ?case using 1 2 by (simp add: unchanged_def)
next
  case (17 c e s)
  then have "unchanged s e (mutator_visit_expr c e s)" by simp
  then show ?case
    using "17.prems"(3)
    by (auto simp: visit_with_new_scope.simps unchanged_def split: sum.splits)
next
  case (18 c v e s)
  have none: "f_visit_binding c = None" "f_visit_binding_of c VarBindingNode = None"
    using "18.prems"(1) by (simp_all add: identity_mutator_def)
  have wf: "well_formed (infer c) e" "var_shape v = fst (infer c e)"
      "var_type v = Some (snd (infer c e))"
    using "18.prems"(2) by simp_all
  from "18.hyps" [OF none "18.prems"(1) wf(1) "18.prems"(3)]
  obtain s1 where 1: "mutator_visit_expr c e s = Inr (e, s1)" "var_remap s1 = Map.empty"
      "block_stack s1 = block_stack s"
    by (rule unchangedE)
  have 2: "mutator_visit_var_def c v s1 = Inr (v, s1)"
    using "18.prems"(1) by (rule var_def_identity)
  have 3: "with_shape_and_type v (fst (infer c e)) (snd (infer c e)) = v"
    using wf by (simp add: with_shape_and_type_def)
  show ?case
    using none 1 2 3 "18.prems"(4)
    by (cases "block_stack s") (simp_all add: emitted_def register_remap_def emit_def)
next
  case (19 c e pat v s)
  have none: "f_visit_binding c = None" "f_visit_binding_of c MatchShapeNode = None"
    using "19.prems"(1) by (simp_all add: identity_mutator_def)
  have wf: "well_formed (infer c) e"
    using "19.prems"(2) by simp
  from "19.hyps" [OF none "19.prems"(1) wf "19.prems"(3)]
  obtain s1 where 1: "mutator_visit_expr c e s = Inr (e, s1)" "var_remap s1 = Map.empty"
      "block_stack s1 = block_stack s"
    by (rule unchangedE)
  have 2: "mutator_visit_var_def c v s1 = Inr (v, s1)"
    using "19.prems"(1) by (rule var_def_identity)
  show ?case
    using none 1 2 "19.prems"(4)
    by (cases "block_stack s") (simp_all add: emitted_def register_remap_def emit_def)
next
  case (21 c b bs s)
  have wf: "well_formed_binding (infer c) b" "list_all (well_formed_binding (infer c)) bs"
    using "21.prems"(2) by simp_all
  from "21.hyps"(1) [OF "21.prems"(1) wf(1) "21.prems"(3,4)]
  obtain s1 where 1: "mutator_visit_binding c b s = Inr s1" "var_remap s1 = Map.empty"
      "block_stack s1 = (hd (block_stack s) @ [b]) # tl (block_stack s)"
    by (rule emittedE)
  have ne: "block_stack s1 \<noteq> []" using 1(3) by simp
  from "21.hyps"(2) [OF 1(1) "21.prems"(1) wf(2) 1(2) ne]
  obtain s2 where 2: "mutator_visit_bindings c bs s1 = Inr s2" "var_remap s2 = Map.empty"
      "block_stack s2 = (hd (block_stack s1) @ bs) # tl (block_stack s1)"
    by (rule emittedE)
  show ?case using 1 2 by (simp add: emitted_def)
next
  case (22 c bs s)
  have none: "f_visit_binding_block c = None" "f_visit_binding_block_of c BindingBlockNode = None"
    using "22.prems"(1) by (simp_all add: identity_mutator_def)
  have wf: "list_all (well_formed_binding (infer c)) bs"
    using "22.prems"(2) by simp
  have "emitted (begin_block s) bs (mutator_visit_bindings c bs (begin_block s))"
    using "22.hyps" [OF none "22.prems"(1) wf] "22.prems"(3) by (simp add: begin_block_def)
  then obtain s1 where 1: "mutator_visit_bindings c bs (begin_block s) = Inr s1"
      "var_remap s1 = Map.empty"
      "block_stack s1 = (hd (block_stack (begin_block s)) @ bs) # tl (block_stack (begin_block s))"
    by (rule emittedE)
  show ?case
    using none 1 by (simp add: unchanged_def begin_block_def end_block_def)
next
  case (23 c bs s)
  have none: "f_visit_binding_block c = None" "f_visit_binding_block_of c DataflowBlockNode = None"
    using "23.prems"(1) by (simp_all add: identity_mutator_def)
  have wf: "list_all (well_formed_binding (infer c)) bs"
    using "23.prems"(2) by simp
  have "emitted (begin_block s) bs (mutator_visit_bindings c bs (begin_block s))"
    using "23.hyps" [OF none "23.prems"(1) wf] "23.prems"(3) by (simp add: begin_block_def)
  then obtain s1 where 1: "mutator_visit_bindings c bs (begin_block s) = Inr s1"
      "var_remap s1 = Map.empty"
      "block_stack s1 = (hd (block_stack (begin_block s)) @ bs) # tl (block_stack (begin_block s))"
    by (rule emittedE)
  show ?case
    using none 1 by (simp add: unchanged_def begin_block_def end_block_def)
next
  case (25 c b bs s)
  have wf: "well_formed_block (infer c) b" "list_all (well_formed_block (infer c)) bs"
    using "25.prems"(2) by simp_all
  from "25.hyps"(1) [OF "25.prems"(1) wf(1) "25.prems"(3)]
  obtain s1 where 1: "mutator_visit_binding_block c b s = Inr (b, s1)" "var_remap s1 = Map.empty"
      "block_stack s1 = block_stack s"
    by (rule unchangedE)
  from "25.hyps"(2) [OF 1(1) refl "25.prems"(1) wf(2) 1(2)]
  obtain s2 where 2: "mutator_visit_binding_blocks c bs s1 = Inr (bs, s2)"
      "var_remap s2 = Map.empty" "block_stack s2 = block_stack s1"
    by (rule unchangedE)
  show ?case using 1 2 by (simp add: unchanged_def)
qed (simp_all add: unchanged_def emitted_def)




subsection \<open>Variable remapping\<close>






subsection \<open>\<open>lookup_binding\<close>\<close>

lemma vid_with_shape_and_type [simp]: "vid (with_shape_and_type v sh t) = vid v"
  by (cases v) (simp_all add: with_shape_and_type_def)

lemma emit_dom:
  "emit b s = Inr s' \<Longrightarrow> dom (binding_table s') = insert (vid (binding_var b)) (dom (binding_table s))"
  by (auto simp: emit_def split: list.splits)

lemma dom_step: "B \<subseteq> A \<union> X \<Longrightarrow> C \<subseteq> B \<union> Y \<Longrightarrow> C \<subseteq> A \<union> (X \<union> Y)"
  by blast

lemma dom_step3:
  "B \<subseteq> A \<union> X \<Longrightarrow> C \<subseteq> B \<union> Y \<Longrightarrow> D \<subseteq> C \<union> Z \<Longrightarrow> D \<subseteq> A \<union> (X \<union> (Y \<union> Z))"
  by blast

lemma dom_insert_step: "B \<subseteq> A \<union> X \<Longrightarrow> C = insert i B \<Longrightarrow> C \<subseteq> A \<union> (X \<union> {i})"
  by blast

lemma register_remap_table [simp]: "binding_table (register_remap v v' s) = binding_table s"
  by (simp add: register_remap_def set_var_remap_def)

lemma binding_table_dom:
  "identity_mutator c \<Longrightarrow> mutator_visit_expr c e s = Inr (e', s')
     \<Longrightarrow> dom (binding_table s') \<subseteq> dom (binding_table s) \<union> set (bound_ids e)"
  "identity_mutator c \<Longrightarrow> visit_expr_post_order c e s = Inr (e', s')
     \<Longrightarrow> dom (binding_table s') \<subseteq> dom (binding_table s) \<union> set (bound_ids e)"
  "identity_mutator c \<Longrightarrow> mutator_visit_exprs c es s = Inr (es', s')
     \<Longrightarrow> dom (binding_table s') \<subseteq> dom (binding_table s) \<union> set (concat (map bound_ids es))"
  "identity_mutator c \<Longrightarrow> visit_with_new_scope c e s = Inr (e', s')
     \<Longrightarrow> dom (binding_table s') \<subseteq> dom (binding_table s) \<union> set (bound_ids e)"
  "identity_mutator c \<Longrightarrow> mutator_visit_binding c b s = Inr s'
     \<Longrightarrow> dom (binding_table s') \<subseteq> dom (binding_table s) \<union> set (binding_bound_ids b)"
  "identity_mutator c \<Longrightarrow> mutator_visit_bindings c bs s = Inr s'
     \<Longrightarrow> dom (binding_table s') \<subseteq> dom (binding_table s) \<union> set (concat (map binding_bound_ids bs))"
  "identity_mutator c \<Longrightarrow> mutator_visit_binding_block c bl s = Inr (bl', s')
     \<Longrightarrow> dom (binding_table s') \<subseteq> dom (binding_table s) \<union> set (block_bound_ids bl)"
  "identity_mutator c \<Longrightarrow> mutator_visit_binding_blocks c bls s = Inr (bls', s')
     \<Longrightarrow> dom (binding_table s') \<subseteq> dom (binding_table s) \<union> set (concat (map block_bound_ids bls))"
proof (induct c e s and c e s and c es s and c e s and c b s and c bs s and c bl s and c bls s
    arbitrary: e' s' and e' s' and es' s' and e' s' and s' and s' and bl' s' and bls' s'
    rule: engine_induct)
  case (1 c e s)
  have none: "f_visit_expr c = None" "f_visit_expr_of c (kind_of e) = None"
    using "1.prems"(1) by (simp_all add: identity_mutator_def)
  have hook: "f_rewrite_post_order c (kind_of e) = None
      \<or> f_rewrite_post_order c (kind_of e) = Some identity_hook"
    using "1.prems"(1) by (simp add: identity_mutator_def)
  have "visit_expr_post_order c e s = Inr (e', s')"
    using "1.prems"(2) none hook
    by (auto simp: mutator_visit_expr.simps identity_hook_def split: sum.splits)
  then show ?case
    using "1.hyps" [OF none "1.prems"(1)] by simp
next
  case (3 c es s)
  obtain es1 where 1: "mutator_visit_exprs c es s = Inr (es1, s')"
    using "3.prems"(2) by (auto split: sum.splits)
  show ?case
    using "3.hyps" [OF "3.prems"(1) 1] by simp
next
  case (14 c t i s)
  obtain t1 where 1: "mutator_visit_expr c t s = Inr (t1, s')"
    using "14.prems"(2) by (auto split: sum.splits)
  show ?case
    using "14.hyps" [OF "14.prems"(1) 1] by simp
next
  case (9 c ps body ret attrs s)
  have 0: "mutator_visit_var_defs c ps s = Inr (ps, s)"
    using "9.prems"(1) by (rule var_defs_identity)
  obtain body' where "visit_with_new_scope c body s = Inr (body', s')"
    using "9.prems"(2) 0 by (auto split: sum.splits)
  then show ?case
    using "9.hyps" [OF 0 refl "9.prems"(1)] by simp
next
  case (10 c f args attrs sinfos s)
  obtain f' s1 args' where 1: "mutator_visit_expr c f s = Inr (f', s1)"
      and 2: "mutator_visit_exprs c args s1 = Inr (args', s')"
    using "10.prems"(2) by (auto split: sum.splits)
  show ?case
    using dom_step [OF "10.hyps"(1) [OF "10.prems"(1) 1] "10.hyps"(2) [OF 1 refl "10.prems"(1) 2]]
    by (simp only: bound_ids.simps set_append)
next
  case (11 c blocks body s)
  obtain blocks' s1 body' where 1: "mutator_visit_binding_blocks c blocks s = Inr (blocks', s1)"
      and 2: "mutator_visit_expr c body s1 = Inr (body', s')"
    using "11.prems"(2) by (auto split: sum.splits)
  show ?case
    using dom_step [OF "11.hyps"(1) [OF "11.prems"(1) 1] "11.hyps"(2) [OF 1 refl "11.prems"(1) 2]]
    by (simp only: bound_ids.simps set_append)
next
  case (12 c cond t f s)
  obtain cond' s1 t' s2 f' where 1: "mutator_visit_expr c cond s = Inr (cond', s1)"
      and 2: "visit_with_new_scope c t s1 = Inr (t', s2)"
      and 3: "visit_with_new_scope c f s2 = Inr (f', s')"
    using "12.prems"(2) by (auto split: sum.splits)
  show ?case
    using dom_step3 [OF "12.hyps"(1) [OF "12.prems"(1) 1] "12.hyps"(2) [OF 1 refl "12.prems"(1) 2]
      "12.hyps"(3) [OF 1 refl 2 refl "12.prems"(1) 3]]
    by (simp only: bound_ids.simps set_append)
next
  case (16 c e es s)
  obtain e1 s1 es1 where 1: "mutator_visit_expr c e s = Inr (e1, s1)"
      and 2: "mutator_visit_exprs c es s1 = Inr (es1, s')"
    using "16.prems"(2) by (auto split: sum.splits)
  show ?case
    using dom_step [OF "16.hyps"(1) [OF "16.prems"(1) 1] "16.hyps"(2) [OF 1 refl "16.prems"(1) 2]]
    by (simp only: list.map concat.simps set_append)
next
  case (17 c e s)
  obtain s1 where 1: "mutator_visit_expr c e s = Inr (e', s1)"
      and 2: "s' = s1\<lparr>var_remap := var_remap s\<rparr>"
    using "17.prems"(2) by (auto simp: visit_with_new_scope.simps split: sum.splits)
  show ?case
    using "17.hyps" [OF "17.prems"(1) 1] 2 by simp
next
  case (18 c v e s)
  have none: "f_visit_binding c = None" "f_visit_binding_of c VarBindingNode = None"
    using "18.prems"(1) by (simp_all add: identity_mutator_def)
  obtain e1 s1 where 1: "mutator_visit_expr c e s = Inr (e1, s1)"
      and 2: "emit (VarBinding (with_shape_and_type v (fst (infer c e1)) (snd (infer c e1))) e1)
               (register_remap v (with_shape_and_type v (fst (infer c e1)) (snd (infer c e1))) s1) = Inr s'"
    using "18.prems"(2) none var_def_identity [OF "18.prems"(1)]
    by (auto split: sum.splits)
  have d: "dom (binding_table s') = insert (vid v) (dom (binding_table s1))"
    using emit_dom [OF 2] by simp
  show ?case
    using dom_insert_step [OF "18.hyps" [OF none "18.prems"(1) 1] d]
    by simp
next
  case (19 c e pat v s)
  have none: "f_visit_binding c = None" "f_visit_binding_of c MatchShapeNode = None"
    using "19.prems"(1) by (simp_all add: identity_mutator_def)
  obtain e1 s1 where 1: "mutator_visit_expr c e s = Inr (e1, s1)"
      and 2: "emit (MatchShape e1 pat v) (register_remap v v s1) = Inr s'"
    using "19.prems"(2) none var_def_identity [OF "19.prems"(1)]
    by (auto split: sum.splits)
  have d: "dom (binding_table s') = insert (vid v) (dom (binding_table s1))"
    using emit_dom [OF 2] by simp
  show ?case
    using dom_insert_step [OF "19.hyps" [OF none "19.prems"(1) 1] d]
    by simp
next
  case (21 c b bs s)
  obtain s1 where 1: "mutator_visit_binding c b s = Inr s1"
      and 2: "mutator_visit_bindings c bs s1 = Inr s'"
    using "21.prems"(2) by (auto split: sum.splits)
  show ?case
    using dom_step [OF "21.hyps"(1) [OF "21.prems"(1) 1] "21.hyps"(2) [OF 1 "21.prems"(1) 2]]
    by (simp only: list.map concat.simps set_append)
next
  case (22 c bs s)
  have none: "f_visit_binding_block c = None" "f_visit_binding_block_of c BindingBlockNode = None"
    using "22.prems"(1) by (simp_all add: identity_mutator_def)
  obtain s1 where 1: "mutator_visit_bindings c bs (begin_block s) = Inr s1"
      and 2: "binding_table s' = binding_table s1"
    using "22.prems"(2) none
    by (auto simp: end_block_def split: sum.splits list.splits)
  show ?case
    using "22.hyps" [OF none "22.prems"(1) 1] 2 by (simp add: begin_block_def)
next
  case (23 c bs s)
  have none: "f_visit_binding_block c = None" "f_visit_binding_block_of c DataflowBlockNode = None"
    using "23.prems"(1) by (simp_all add: identity_mutator_def)
  obtain s1 where 1: "mutator_visit_bindings c bs (begin_block s) = Inr s1"
      and 2: "binding_table s' = binding_table s1"
    using "23.prems"(2) none
    by (auto simp: end_block_def split: sum.splits list.splits)
  show ?case
    using "23.hyps" [OF none "23.prems"(1) 1] 2 by (simp add: begin_block_def)
next
  case (25 c b bs s)
  obtain b1 s1 bs1 where 1: "mutator_visit_binding_block c b s = Inr (b1, s1)"
      and 2: "mutator_visit_binding_blocks c bs s1 = Inr (bs1, s')"
    using "25.prems"(2) by (auto split: sum.splits)
  show ?case
    using dom_step [OF "25.hyps"(1) [OF "25.prems"(1) 1] "25.hyps"(2) [OF 1 refl "25.prems"(1) 2]]
    by (simp only: list.map concat.simps set_append)
qed (auto split: sum.splits option.splits)

lemma emit_lookup:
  "emit b s = Inr s' \<Longrightarrow>
     lookup_binding v s' = (if vid v = vid (binding_var b) then Some (binding_value b) else lookup_binding v s)"
  by (auto simp: emit_def lookup_binding_def split: list.splits)

lemma find_snoc:
  "find P (xs @ [x]) = (case find P xs of Some y \<Rightarrow> Some y | None \<Rightarrow> if P x then Some x else None)"
  by (induction xs) simp_all

lemma emit_all_lookup:
  "emit_all bs s = Inr s' \<Longrightarrow>
     lookup_binding v s' =
       (case find (\<lambda>b. vid (binding_var b) = vid v) (rev bs) of
          Some b \<Rightarrow> Some (binding_value b)
        | None \<Rightarrow> lookup_binding v s)"
proof (induction bs arbitrary: s)
  case Nil
  then show ?case by simp
next
  case (Cons b bs)
  then obtain s1 where 1: "emit b s = Inr s1" and 2: "emit_all bs s1 = Inr s'"
    by (auto split: sum.splits)
  show ?case
    using Cons.IH [OF 2] emit_lookup [OF 1, of v]
    by (auto simp: find_snoc split: option.splits)
qed

lemma visit_var_binding_lookup:
  assumes "identity_mutator c" and "well_formed_binding (infer c) (VarBinding v e)"
    and "var_remap s = Map.empty" and "mutator_visit_binding c (VarBinding v e) s = Inr s'"
  shows "lookup_binding v s' = Some e"
proof -
  have none: "f_visit_binding c = None" "f_visit_binding_of c VarBindingNode = None"
    using assms(1) by (simp_all add: identity_mutator_def)
  have wf: "well_formed (infer c) e" "var_shape v = fst (infer c e)"
      "var_type v = Some (snd (infer c e))"
    using assms(2) by simp_all
  obtain s1 where 1: "mutator_visit_expr c e s = Inr (e, s1)"
    using identity_traversal(1) [OF assms(1) wf(1) assms(3)] by (rule unchangedE)
  have 2: "mutator_visit_var_def c v s1 = Inr (v, s1)"
    using assms(1) by (rule var_def_identity)
  have 3: "with_shape_and_type v (fst (infer c e)) (snd (infer c e)) = v"
    using wf by (simp add: with_shape_and_type_def)
  have "emit (VarBinding v e) s1 = Inr s'"
    using assms(4) none 1 2 3 by (simp add: register_remap_def)
  then show ?thesis
    using emit_lookup [of "VarBinding v e" s1 s' v] by simp
qed

text \<open>
  Claim C6. \<open>lookup_binding(var)\<close> returns the right-hand side most recently bound to
  \<open>var\<close>: after a binding is emitted it is that binding's value for the bound variable and
  unchanged for every other variable, so after a sequence of emissions it is the value of
  the last one that binds \<open>var\<close>; the default visit of a \<open>VarBinding\<close> makes its value the
  one looked up. It returns absent for a function parameter: nothing is bound in a new
  mutator, and the traversal of a function binds no parameter (the parameters being
  distinct from the variables bound in the body).
\<close>

theorem lookup_binding_most_recent:
  "(emit b s = Inr s'
      \<longrightarrow> lookup_binding v s'
          = (if vid v = vid (binding_var b) then Some (binding_value b) else lookup_binding v s))
   \<and> (emit_all bs s = Inr s'
      \<longrightarrow> lookup_binding v s'
          = (case find (\<lambda>b. vid (binding_var b) = vid v) (rev bs) of
               Some b \<Rightarrow> Some (binding_value b)
             | None \<Rightarrow> lookup_binding v s))
   \<and> (identity_mutator c \<and> well_formed_binding (infer c) (VarBinding v e)
        \<and> var_remap s = Map.empty \<and> mutator_visit_binding c (VarBinding v e) s = Inr s'
      \<longrightarrow> lookup_binding v s' = Some e)
   \<and> lookup_binding p initial_state = None
   \<and> (identity_mutator c \<and> p \<in> set ps \<and> vid p \<notin> set (bound_ids body)
        \<and> lookup_binding p s = None
        \<and> mutator_visit_expr c (Function ps body ret attrs) s = Inr (f', s')
      \<longrightarrow> lookup_binding p s' = None)"
proof (intro conjI impI)
  assume "emit b s = Inr s'"
  then show "lookup_binding v s'
          = (if vid v = vid (binding_var b) then Some (binding_value b) else lookup_binding v s)"
    by (rule emit_lookup)
next
  assume "emit_all bs s = Inr s'"
  then show "lookup_binding v s'
          = (case find (\<lambda>b. vid (binding_var b) = vid v) (rev bs) of
               Some b \<Rightarrow> Some (binding_value b)
             | None \<Rightarrow> lookup_binding v s)"
    by (rule emit_all_lookup)
next
  assume "identity_mutator c \<and> well_formed_binding (infer c) (VarBinding v e)
        \<and> var_remap s = Map.empty \<and> mutator_visit_binding c (VarBinding v e) s = Inr s'"
  then show "lookup_binding v s' = Some e"
    using visit_var_binding_lookup by blast
next
  show "lookup_binding p initial_state = None"
    by (simp add: lookup_binding_def initial_state_def)
next
  assume h: "identity_mutator c \<and> p \<in> set ps \<and> vid p \<notin> set (bound_ids body)
        \<and> lookup_binding p s = None
        \<and> mutator_visit_expr c (Function ps body ret attrs) s = Inr (f', s')"
  then have "dom (binding_table s') \<subseteq> dom (binding_table s) \<union> set (bound_ids (Function ps body ret attrs))"
    using binding_table_dom(1) by blast
  with h show "lookup_binding p s' = None"
    by (auto simp: lookup_binding_def dom_def)
qed

theorem lookup_binding_most_recent_witness:
  "(case emit_all [VarBinding (Var 1 ''x'' None None) (Constant 1),
                   VarBinding (Var 2 ''y'' None None) (Constant 2),
                   VarBinding (Var 1 ''x'' None None) (Constant 3)] (begin_block initial_state) of
      Inl err \<Rightarrow> False
    | Inr s' \<Rightarrow> lookup_binding (Var 1 ''x'' None None) s' = Some (Constant 3))
   \<and> (case mutator_visit_expr (no_handlers (\<lambda>e. (None, ''Object'')))
        (Function [Var 1 ''x'' None None]
           (SeqExpr [BindingBlock [VarBinding (Var 2 ''y'' None (Some ''Object'')) (Constant 3)]]
              (EVar (Var 2 ''y'' None (Some ''Object'')))) None None) initial_state of
      Inl err \<Rightarrow> False
    | Inr (f', s') \<Rightarrow> lookup_binding (Var 1 ''x'' None None) s' = None)"
proof -
  let ?x = "Var 1 ''x'' None None"
  let ?y = "Var 2 ''y'' None (Some ''Object'')"
  let ?bs = "[VarBinding ?x (Constant 1), VarBinding (Var 2 ''y'' None None) (Constant 2),
              VarBinding ?x (Constant 3)]"
  let ?cfg = "no_handlers (\<lambda>e. (None, ''Object''))"
  let ?body = "SeqExpr [BindingBlock [VarBinding ?y (Constant 3)]] (EVar ?y)"
  obtain s1 where 1: "emit_all ?bs (begin_block initial_state) = Inr s1"
    by (simp add: emit_def begin_block_def initial_state_def)
  have a: "lookup_binding ?x s1 = Some (Constant 3)"
    using 1 lookup_binding_most_recent [where bs = ?bs and s = "begin_block initial_state"
        and s' = s1 and v = ?x]
    by simp
  have idm: "identity_mutator ?cfg"
    by (simp add: identity_mutator_def no_handlers_def)
  have "well_formed (infer ?cfg) (Function [?x] ?body None None)"
    by (simp add: no_handlers_def)
  then obtain f2 s2 where 2: "mutator_visit_expr ?cfg (Function [?x] ?body None None) initial_state
      = Inr (f2, s2)"
    using identity_traversal(1) [OF idm, of "Function [?x] ?body None None" initial_state]
    by (auto simp: initial_state_def elim: unchangedE)
  have pre: "identity_mutator ?cfg \<and> ?x \<in> set [?x] \<and> vid ?x \<notin> set (bound_ids ?body)
        \<and> lookup_binding ?x initial_state = None"
    using idm by (simp add: lookup_binding_def initial_state_def)
  have b: "lookup_binding ?x s2 = None"
    using 2 pre lookup_binding_most_recent [where c = ?cfg and p = ?x and ps = "[?x]"
        and body = ?body and ret = None and attrs = None and s = initial_state
        and f' = f2 and s' = s2]
    by blast
  show ?thesis
    using 1 a 2 b by simp
qed

end
